theory Spec2Isabelle
  imports Complex_Main
begin

section \<open>Basic model constraints of calliope (constraints/base.py)\<close>

text \<open>
  The module builds, for a model instance, the decision variables and the constraints of
  a linear programme. Every constraint rule is a Python function that receives an index
  tuple and returns a symbolic relation between variables, the marker
  \<^verbatim>\<open>Constraint.NoConstraint\<close>, or raises. The embedding keeps this shape: a rule is a
  function from the model and the index tuple to a result that is an error, the marker,
  or a relation built from an expression tree; a relation is given its meaning by
  evaluating both sides under a valuation of the variables.

  Numbers are idealised: a Python float is a real, and the options that the code tests
  for infinity (the capacity maxima) are reals extended by the two infinities and NaN.
  Durations (\<^verbatim>\<open>time_res\<close>) and the plant life are whole numbers, so that
  \<^verbatim>\<open>**\<close> is a power with a natural exponent.
\<close>

subsection \<open>Numbers\<close>

datatype pyfloat = Fin real | PInf | NInf | NaN

fun pf_add :: "pyfloat \<Rightarrow> pyfloat \<Rightarrow> pyfloat" where
  "pf_add (Fin a) (Fin b) = Fin (a + b)"
| "pf_add NaN _ = NaN"
| "pf_add _ NaN = NaN"
| "pf_add PInf NInf = NaN"
| "pf_add NInf PInf = NaN"
| "pf_add PInf _ = PInf"
| "pf_add _ PInf = PInf"
| "pf_add NInf _ = NInf"
| "pf_add _ NInf = NInf"

fun pf_neg :: "pyfloat \<Rightarrow> pyfloat" where
  "pf_neg (Fin a) = Fin (- a)"
| "pf_neg PInf = NInf"
| "pf_neg NInf = PInf"
| "pf_neg NaN = NaN"

definition pf_sub :: "pyfloat \<Rightarrow> pyfloat \<Rightarrow> pyfloat" where
  "pf_sub a b = pf_add a (pf_neg b)"

text \<open>The sign of an infinite product: the infinity of the given sign, NaN for a zero factor.\<close>

definition pf_signed_inf :: "real \<Rightarrow> pyfloat" where
  "pf_signed_inf s = (if 0 < s then PInf else if s < 0 then NInf else NaN)"

fun pf_mul :: "pyfloat \<Rightarrow> pyfloat \<Rightarrow> pyfloat" where
  "pf_mul (Fin a) (Fin b) = Fin (a * b)"
| "pf_mul NaN _ = NaN"
| "pf_mul _ NaN = NaN"
| "pf_mul (Fin a) PInf = pf_signed_inf a"
| "pf_mul (Fin a) NInf = pf_signed_inf (- a)"
| "pf_mul PInf (Fin b) = pf_signed_inf b"
| "pf_mul NInf (Fin b) = pf_signed_inf (- b)"
| "pf_mul PInf PInf = PInf"
| "pf_mul NInf NInf = PInf"
| "pf_mul PInf NInf = NInf"
| "pf_mul NInf PInf = NInf"

text \<open>
  Division of values. A zero divisor never reaches this function: every division of the
  module is guarded by the \<^verbatim>\<open>ZeroDivisionError\<close> branch of its rule.
\<close>

fun pf_div :: "pyfloat \<Rightarrow> pyfloat \<Rightarrow> pyfloat" where
  "pf_div (Fin a) (Fin b) = (if b = 0 then NaN else Fin (a / b))"
| "pf_div NaN _ = NaN"
| "pf_div _ NaN = NaN"
| "pf_div (Fin a) PInf = Fin 0"
| "pf_div (Fin a) NInf = Fin 0"
| "pf_div PInf (Fin b) = (if 0 \<le> b then PInf else NInf)"
| "pf_div NInf (Fin b) = (if 0 \<le> b then NInf else PInf)"
| "pf_div PInf PInf = NaN"
| "pf_div NInf NInf = NaN"
| "pf_div PInf NInf = NaN"
| "pf_div NInf PInf = NaN"

fun pf_le :: "pyfloat \<Rightarrow> pyfloat \<Rightarrow> bool" where
  "pf_le (Fin a) (Fin b) = (a \<le> b)"
| "pf_le NaN _ = False"
| "pf_le _ NaN = False"
| "pf_le NInf _ = True"
| "pf_le _ PInf = True"
| "pf_le PInf _ = False"
| "pf_le _ NInf = False"

definition pf_eq :: "pyfloat \<Rightarrow> pyfloat \<Rightarrow> bool" where
  "pf_eq a b = (a = b \<and> a \<noteq> NaN)"

definition isinf :: "pyfloat \<Rightarrow> bool" where
  "isinf a = (a = PInf \<or> a = NInf)"

subsection \<open>Index sets, variables, expressions\<close>

type_synonym tech = string
type_synonym loc = string
type_synonym carrier = string
type_synonym cost_class = string
type_synonym timestep = int

datatype error = ZeroDivisionError | KeyError | ModelError

text \<open>The variables declared by the module, each with the index tuple of its declaration.\<close>

datatype var =
    S tech loc timestep
  | RS tech loc timestep
  | R_AREA tech loc
  | ES_PROD carrier tech loc timestep
  | ES_CON carrier tech loc timestep
  | S_CAP tech loc
  | R_CAP tech loc
  | E_CAP tech loc
  | COST tech loc cost_class
  | COST_CON tech loc cost_class
  | COST_OP tech loc cost_class

datatype expr =
    Num pyfloat
  | V var
  | Add expr expr
  | Sub expr expr
  | Mul expr expr
  | Div expr expr

datatype constr = Eq expr expr | Le expr expr | Ge expr expr

text \<open>
  What a rule hands back: a relation, the marker \<^verbatim>\<open>Constraint.NoConstraint\<close>, or
  Python's \<^verbatim>\<open>None\<close> when the body falls off its last \<^verbatim>\<open>elif\<close>.
\<close>

datatype rule_result = Constraint constr | NoConstraint | PyNone

type_synonym valuation = "var \<Rightarrow> real"

fun eval :: "valuation \<Rightarrow> expr \<Rightarrow> pyfloat" where
  "eval v (Num a) = a"
| "eval v (V x) = Fin (v x)"
| "eval v (Add a b) = pf_add (eval v a) (eval v b)"
| "eval v (Sub a b) = pf_sub (eval v a) (eval v b)"
| "eval v (Mul a b) = pf_mul (eval v a) (eval v b)"
| "eval v (Div a b) = pf_div (eval v a) (eval v b)"

fun sat :: "valuation \<Rightarrow> constr \<Rightarrow> bool" where
  "sat v (Eq a b) = pf_eq (eval v a) (eval v b)"
| "sat v (Le a b) = pf_le (eval v a) (eval v b)"
| "sat v (Ge a b) = pf_le (eval v b) (eval v a)"

text \<open>
  A valuation meets the result of a rule when the rule produced a relation that holds, or
  the marker; a rule that raised or returned \<^verbatim>\<open>None\<close> leaves no model to solve.
\<close>

fun holds :: "valuation \<Rightarrow> error + rule_result \<Rightarrow> bool" where
  "holds v (Inr (Constraint c)) = sat v c"
| "holds v (Inr NoConstraint) = True"
| "holds v (Inr PyNone) = False"
| "holds v (Inl e) = False"

text \<open>Python's \<^verbatim>\<open>sum\<close> over a generator: the terms are added to 0 from the left.\<close>

definition sum_expr :: "expr list \<Rightarrow> expr" where
  "sum_expr es = foldl Add (Num (Fin 0)) es"

subsection \<open>The model instance\<close>

text \<open>
  The fields \<open>m_\<close> are the sets and parameters of the programme (\<^verbatim>\<open>model.m\<close>), the
  fields \<open>d_\<close> the data tables (\<^verbatim>\<open>model.data\<close>). The option resolver, the reference
  efficiency and the remote end of a link live in other modules and are taken as
  parameters: \<open>get_option_*\<close> stands for \<^verbatim>\<open>model.get_option(key, x=...)\<close> read at the
  type the caller uses (a number, a capacity maximum, a whole number, a flag, a name, a
  maximum that may be \<^verbatim>\<open>False\<close>), \<open>get_option_default\<close> for the call with a
  \<^verbatim>\<open>default=\<close> key. A flag is what Python's truth test, or \<^verbatim>\<open>is True\<close>, makes of
  the option; a number that is only tested for truth is true when it is not 0.
\<close>

record location =
  loc_name :: loc
  loc_level :: int
  loc_within :: "loc option"

record model =
  mode :: string
  m_y :: "tech list"
  m_x :: "loc list"
  m_t :: "timestep list"
  m_c :: "carrier list"
  m_k :: "cost_class list"
  m_y_pc :: "tech list"
  m_y_def_r :: "tech list"
  m_y_trans :: "tech list"
  m_y_conv :: "tech list"
  m_y_def_e_eff :: "tech list"
  m_time_res :: "timestep \<Rightarrow> nat"
  m_r :: "tech \<Rightarrow> loc \<Rightarrow> timestep \<Rightarrow> real"
  m_e_eff :: "tech \<Rightarrow> loc \<Rightarrow> timestep \<Rightarrow> real"
  d_e_eff :: "tech \<Rightarrow> loc \<Rightarrow> real"
  d_s_init :: "(loc \<times> tech \<Rightarrow> real option) option"
  d_transmission_y :: "tech list"
  d_locations :: "location list"
  d_locations_ix :: "loc \<Rightarrow> tech \<Rightarrow> real"
  get_option_num :: "string \<Rightarrow> loc option \<Rightarrow> real"
  get_option_max :: "string \<Rightarrow> loc option \<Rightarrow> pyfloat"
  get_option_nat :: "string \<Rightarrow> nat"
  get_option_flag :: "string \<Rightarrow> loc option \<Rightarrow> bool"
  get_option_str :: "string \<Rightarrow> string"
  get_option_or_false :: "string \<Rightarrow> loc option \<Rightarrow> pyfloat option"
  get_option_default :: "string \<Rightarrow> string \<Rightarrow> real"
  get_eff_ref :: "string \<Rightarrow> tech \<Rightarrow> loc option \<Rightarrow> real"
  get_remotes :: "tech \<Rightarrow> loc \<Rightarrow> tech \<times> loc"

text \<open>\<^verbatim>\<open>m.t.order_dict[t]\<close>: the position of \<open>t\<close> in the ordered set, counted from 1.\<close>

fun order_dict :: "timestep list \<Rightarrow> timestep \<Rightarrow> nat option" where
  "order_dict [] t = None"
| "order_dict (u # us) t = (if u = t then Some 1 else map_option Suc (order_dict us t))"

text \<open>
  Modelled from the spec: \<^verbatim>\<open>model.prev(t)\<close> is not part of this module. The timesteps form
  an ordered, non-cyclic sequence whose consecutive order defines the storage recurrence:
  the predecessor of \<open>t\<close> is the element before it, and the first element has none.
\<close>

fun prev :: "timestep list \<Rightarrow> timestep \<Rightarrow> error + timestep" where
  "prev [] t = Inl KeyError"
| "prev [u] t = (if u = t then Inl ModelError else Inl KeyError)"
| "prev (u # w # us) t =
     (if u = t then Inl ModelError else if w = t then Inr u else prev (w # us) t)"

subsection \<open>node_energy_balance\<close>

definition get_e_eff :: "model \<Rightarrow> tech \<Rightarrow> loc \<Rightarrow> timestep \<Rightarrow> real" where
  "get_e_eff m y x t =
     (if y \<in> set (m_y_def_e_eff m) then m_e_eff m y x t else d_e_eff m y x)"

definition c_rs_rule :: "model \<Rightarrow> tech \<Rightarrow> loc \<Rightarrow> timestep \<Rightarrow> error + rule_result" where
  "c_rs_rule m y x t =
     (if y \<notin> set (m_y_def_r m) then Inr NoConstraint
      else
        let this_r = m_r m y x t;
            r_avail =
              Mul (Mul (Num (Fin (this_r * get_option_num m (y @ ''.constraints.r_scale'') (Some x))))
                       (V (R_AREA y x)))
                  (Num (Fin (get_option_num m (y @ ''.constraints.r_eff'') None)))
        in if get_option_flag m (y @ ''.constraints.force_r'') None
           then Inr (Constraint (Eq (V (RS y x t)) r_avail))
           else if this_r > 0 then Inr (Constraint (Le (V (RS y x t)) r_avail))
           else Inr (Constraint (Ge (V (RS y x t)) r_avail)))"

text \<open>
  A variable read at an index that comes from the data rather than from the index set of
  the rule (the remote end of a link, a carrier named by an option, a location of the
  hierarchy table) raises \<^verbatim>\<open>KeyError\<close> outside the declared index set.
\<close>

definition c_s_balance_transmission_rule ::
  "model \<Rightarrow> tech \<Rightarrow> loc \<Rightarrow> timestep \<Rightarrow> error + rule_result" where
  "c_s_balance_transmission_rule m y x t =
     (case get_remotes m y x of (y_remote, x_remote) \<Rightarrow>
        if y_remote \<in> set (d_transmission_y m) then
          let c = get_option_str m (y @ ''.carrier'')
          in if c \<in> set (m_c m) \<and> y_remote \<in> set (m_y m) \<and> x_remote \<in> set (m_x m)
             then Inr (Constraint (Eq (V (ES_PROD c y x t))
                    (Mul (Mul (Num (Fin (- 1))) (V (ES_CON c y_remote x_remote t)))
                         (Num (Fin (get_e_eff m y x t))))))
             else Inl KeyError
        else Inr NoConstraint)"

definition c_s_balance_conversion_rule ::
  "model \<Rightarrow> tech \<Rightarrow> loc \<Rightarrow> timestep \<Rightarrow> error + rule_result" where
  "c_s_balance_conversion_rule m y x t =
     (let c_prod = get_option_str m (y @ ''.carrier'');
          c_source = get_option_str m (y @ ''.source_carrier'')
      in if c_prod \<in> set (m_c m) \<and> c_source \<in> set (m_c m)
         then Inr (Constraint (Eq (V (ES_PROD c_prod y x t))
                (Mul (Mul (Num (Fin (- 1))) (V (ES_CON c_source y x t)))
                     (Num (Fin (get_e_eff m y x t))))))
         else Inl KeyError)"

text \<open>
  The right-hand side shared by both returns of the storage balance:
  \<^verbatim>\<open>s_minus_one + rs - es_prod - sum(es_con) * e_eff\<close>, where \<^verbatim>\<open>es_prod\<close> is the sum of
  the production variables divided by the efficiency, or 0 when that division raises
  \<^verbatim>\<open>ZeroDivisionError\<close>.
\<close>

definition es_prod_term :: "model \<Rightarrow> tech \<Rightarrow> loc \<Rightarrow> timestep \<Rightarrow> expr" where
  "es_prod_term m y x t =
     (if get_e_eff m y x t = 0 then Num (Fin 0)
      else Div (sum_expr (map (\<lambda>c. V (ES_PROD c y x t)) (m_c m)))
               (Num (Fin (get_e_eff m y x t))))"

definition es_con_term :: "model \<Rightarrow> tech \<Rightarrow> loc \<Rightarrow> timestep \<Rightarrow> expr" where
  "es_con_term m y x t =
     Mul (sum_expr (map (\<lambda>c. V (ES_CON c y x t)) (m_c m)))
         (Num (Fin (get_e_eff m y x t)))"

definition c_s_balance_pc_rule ::
  "model \<Rightarrow> tech \<Rightarrow> loc \<Rightarrow> timestep \<Rightarrow> error + rule_result" where
  "c_s_balance_pc_rule m y x t =
     (let es_prod = es_prod_term m y x t;
          balance = (\<lambda>s_minus_one.
            Inr (Constraint (Eq (V (S y x t))
              (Sub (Sub (Add s_minus_one (V (RS y x t))) es_prod) (es_con_term m y x t)))))
      in if get_option_max m (y @ ''.constraints.s_cap_max'') None = Fin 0
         then Inr (Constraint (Eq (Num (Fin 0))
                (Sub (Sub (V (RS y x t)) es_prod) (es_con_term m y x t))))
         else
           case order_dict (m_t m) t of
             None \<Rightarrow> Inl KeyError
           | Some n \<Rightarrow>
               if n > 1 then
                 (case prev (m_t m) t of
                    Inl e \<Rightarrow> Inl e
                  | Inr p \<Rightarrow>
                      balance (Mul (Num (Fin ((1 - get_option_num m (y @ ''.constraints.s_loss'') None)
                                              ^ m_time_res m p)))
                                   (V (S y x p))))
               else
                 (case (if mode m = ''operate'' then d_s_init m else None) of
                    Some s_init \<Rightarrow>
                      (case s_init (x, y) of
                         None \<Rightarrow> Inl KeyError
                       | Some s0 \<Rightarrow> balance (Num (Fin s0)))
                  | None \<Rightarrow>
                      balance (Num (Fin (get_option_num m (y @ ''.constraints.s_init'') (Some x))))))"

subsection \<open>node_constraints_build\<close>

definition c_s_cap_rule :: "model \<Rightarrow> tech \<Rightarrow> loc \<Rightarrow> error + rule_result" where
  "c_s_cap_rule m y x =
     (let max_force = get_option_flag m (y @ ''.constraints.s_cap_max_force'') (Some x);
          apply_constraint = (\<lambda>s_cap_max.
            if max_force \<or> mode m = ''operate''
            then Inr (Constraint (Eq (V (S_CAP y x)) (Num s_cap_max)))
            else if mode m = ''plan''
            then Inr (Constraint (Le (V (S_CAP y x)) (Num s_cap_max)))
            else Inr PyNone)
      in if get_option_flag m (y @ ''.constraints.use_s_time'') (Some x) then
           let s_time_max = get_option_num m (y @ ''.constraints.s_time_max'') (Some x);
               e_cap_max = get_option_max m (y @ ''.constraints.e_cap_max'') (Some x);
               e_eff_ref = get_eff_ref m ''e'' y None
           in if e_eff_ref = 0 then Inl ZeroDivisionError
              else apply_constraint (pf_div (pf_mul (Fin s_time_max) e_cap_max) (Fin e_eff_ref))
         else apply_constraint (get_option_max m (y @ ''.constraints.s_cap_max'') (Some x)))"

definition c_r_cap_rule :: "model \<Rightarrow> tech \<Rightarrow> loc \<Rightarrow> error + rule_result" where
  "c_r_cap_rule m y x =
     (let r_cap_max = get_option_max m (y @ ''.constraints.r_cap_max'') (Some x)
      in if isinf r_cap_max then Inr NoConstraint
         else if mode m = ''plan'' then Inr (Constraint (Le (V (R_CAP y x)) (Num r_cap_max)))
         else if mode m = ''operate'' then Inr (Constraint (Eq (V (R_CAP y x)) (Num r_cap_max)))
         else Inr PyNone)"

definition c_r_area_rule :: "model \<Rightarrow> tech \<Rightarrow> loc \<Rightarrow> error + rule_result" where
  "c_r_area_rule m y x =
     (let area_per_cap = get_option_num m (y @ ''.constraints.r_area_per_e_cap'') None
      in if area_per_cap \<noteq> 0 then
           let eff_ref = get_eff_ref m ''e'' y (Some x)
           in if eff_ref = 0 then Inl ZeroDivisionError
              else Inr (Constraint (Eq (V (R_AREA y x))
                     (Mul (V (E_CAP y x)) (Num (Fin (area_per_cap / eff_ref))))))
         else
           case get_option_or_false m (y @ ''.constraints.r_area_max'') (Some x) of
             None \<Rightarrow> Inr (Constraint (Eq (V (R_AREA y x)) (Num (Fin 1))))
           | Some r_area_max \<Rightarrow>
               if mode m = ''plan''
               then Inr (Constraint (Le (V (R_AREA y x)) (Num r_area_max)))
               else if mode m = ''operate''
               then Inr (Constraint (Eq (V (R_AREA y x)) (Num r_area_max)))
               else Inr PyNone)"

definition c_e_cap_rule :: "model \<Rightarrow> tech \<Rightarrow> loc \<Rightarrow> error + rule_result" where
  "c_e_cap_rule m y x =
     (let e_cap_max = get_option_max m (y @ ''.constraints.e_cap_max'') (Some x);
          e_cap_max_scale = get_option_num m (y @ ''.constraints.e_cap_max_scale'') (Some x);
          e_cap_max_force = get_option_flag m (y @ ''.constraints.e_cap_max_force'') (Some x)
      in if \<not> d_locations_ix m x y = 1
         then Inr (Constraint (Eq (V (E_CAP y x)) (Num (Fin 0))))
         else if isinf e_cap_max then Inr NoConstraint
         else if e_cap_max_force \<or> mode m = ''operate''
         then Inr (Constraint (Eq (V (E_CAP y x)) (Num (pf_mul e_cap_max (Fin e_cap_max_scale)))))
         else if mode m = ''plan''
         then Inr (Constraint (Le (V (E_CAP y x)) (Num (pf_mul e_cap_max (Fin e_cap_max_scale)))))
         else Inr PyNone)"

subsection \<open>node_constraints_operational\<close>

definition c_rs_max_upper_rule ::
  "model \<Rightarrow> tech \<Rightarrow> loc \<Rightarrow> timestep \<Rightarrow> error + rule_result" where
  "c_rs_max_upper_rule m y x t =
     (let r_eff = get_option_num m (y @ ''.constraints.r_eff'') None
      in if r_eff = 0 then Inl ZeroDivisionError
         else Inr (Constraint (Le (V (RS y x t))
                (Mul (Num (Fin (real (m_time_res m t))))
                     (Div (V (R_CAP y x)) (Num (Fin r_eff)))))))"

definition c_rs_max_lower_rule ::
  "model \<Rightarrow> tech \<Rightarrow> loc \<Rightarrow> timestep \<Rightarrow> error + rule_result" where
  "c_rs_max_lower_rule m y x t =
     (let r_eff = get_option_num m (y @ ''.constraints.r_eff'') None
      in if r_eff = 0 then Inl ZeroDivisionError
         else Inr (Constraint (Ge (V (RS y x t))
                (Mul (Num (Fin (- 1 * real (m_time_res m t))))
                     (Div (V (R_CAP y x)) (Num (Fin r_eff)))))))"

definition c_es_prod_max_rule ::
  "model \<Rightarrow> carrier \<Rightarrow> tech \<Rightarrow> loc \<Rightarrow> timestep \<Rightarrow> error + rule_result" where
  "c_es_prod_max_rule m c y x t =
     (if c = get_option_str m (y @ ''.carrier'')
      then Inr (Constraint (Le (V (ES_PROD c y x t))
             (Mul (Num (Fin (real (m_time_res m t)))) (V (E_CAP y x)))))
      else Inr (Constraint (Eq (V (ES_PROD c y x t)) (Num (Fin 0)))))"

definition c_es_prod_min_rule ::
  "model \<Rightarrow> carrier \<Rightarrow> tech \<Rightarrow> loc \<Rightarrow> timestep \<Rightarrow> error + rule_result" where
  "c_es_prod_min_rule m c y x t =
     (let min_use = get_option_num m (y @ ''.constraints.e_cap_min_use'') None
      in if min_use \<noteq> 0 \<and> c = get_option_str m (y @ ''.carrier'')
         then Inr (Constraint (Ge (V (ES_PROD c y x t))
                (Mul (Mul (Num (Fin (real (m_time_res m t)))) (V (E_CAP y x)))
                     (Num (Fin min_use)))))
         else Inr NoConstraint)"

definition c_es_con_max_rule ::
  "model \<Rightarrow> carrier \<Rightarrow> tech \<Rightarrow> loc \<Rightarrow> timestep \<Rightarrow> error + rule_result" where
  "c_es_con_max_rule m c y x t =
     (if get_option_flag m (y @ ''.constraints.e_can_be_negative'') None
         \<and> c = get_option_str m (y @ ''.carrier'')
      then Inr (Constraint (Ge (V (ES_CON c y x t))
             (Mul (Num (Fin (- 1 * real (m_time_res m t)))) (V (E_CAP y x)))))
      else Inr (Constraint (Eq (V (ES_CON c y x t)) (Num (Fin 0)))))"

definition c_s_max_rule :: "model \<Rightarrow> tech \<Rightarrow> loc \<Rightarrow> timestep \<Rightarrow> error + rule_result" where
  "c_s_max_rule m y x t = Inr (Constraint (Le (V (S y x t)) (V (S_CAP y x))))"

subsection \<open>transmission_constraints\<close>

definition c_transmission_capacity_rule :: "model \<Rightarrow> tech \<Rightarrow> loc \<Rightarrow> error + rule_result" where
  "c_transmission_capacity_rule m y x =
     (case get_remotes m y x of (y_remote, x_remote) \<Rightarrow>
        if y_remote \<in> set (d_transmission_y m) then
          if y_remote \<in> set (m_y m) \<and> x_remote \<in> set (m_x m)
          then Inr (Constraint (Eq (V (E_CAP y x)) (V (E_CAP y_remote x_remote))))
          else Inl KeyError
        else Inr NoConstraint)"

subsection \<open>node_costs\<close>

text \<open>\<^verbatim>\<open>_depreciation_rate\<close> and \<^verbatim>\<open>_cost\<close>, the two memoised helpers of \<^verbatim>\<open>node_costs\<close>.\<close>

definition depreciation_rate :: "model \<Rightarrow> tech \<Rightarrow> cost_class \<Rightarrow> error + real" where
  "depreciation_rate m y k =
     (let interest = get_option_default m (y @ ''.depreciation.interest.'' @ k)
                       (y @ ''.depreciation.interest.default'');
          plant_life = get_option_nat m (y @ ''.depreciation.plant_life'')
      in if interest = 0 then
           (if plant_life = 0 then Inl ZeroDivisionError else Inr (1 / real plant_life))
         else if (1 + interest) ^ plant_life - 1 = 0 then Inl ZeroDivisionError
         else Inr ((interest * (1 + interest) ^ plant_life)
                   / ((1 + interest) ^ plant_life - 1)))"

definition tech_cost :: "model \<Rightarrow> string \<Rightarrow> tech \<Rightarrow> cost_class \<Rightarrow> real" where
  "tech_cost m cost y k =
     get_option_default m (y @ ''.costs.'' @ k @ ''.'' @ cost) (y @ ''.costs.default.'' @ cost)"

definition c_cost_rule :: "model \<Rightarrow> tech \<Rightarrow> loc \<Rightarrow> cost_class \<Rightarrow> error + rule_result" where
  "c_cost_rule m y x k =
     Inr (Constraint (Eq (V (COST y x k)) (Add (V (COST_CON y x k)) (V (COST_OP y x k)))))"

definition c_cost_con_rule :: "model \<Rightarrow> tech \<Rightarrow> loc \<Rightarrow> cost_class \<Rightarrow> error + rule_result" where
  "c_cost_con_rule m y x k =
     (let cost_s_cap = (if y \<in> set (m_y_pc m)
                        then Mul (Num (Fin (tech_cost m ''s_cap'' y k))) (V (S_CAP y x))
                        else Num (Fin 0));
          cost_r_cap = (if y \<in> set (m_y_def_r m)
                        then Mul (Num (Fin (tech_cost m ''r_cap'' y k))) (V (R_CAP y x))
                        else Num (Fin 0));
          cost_r_area = (if y \<in> set (m_y_def_r m)
                         then Mul (Num (Fin (tech_cost m ''r_area'' y k))) (V (R_AREA y x))
                         else Num (Fin 0))
      in case depreciation_rate m y k of
           Inl e \<Rightarrow> Inl e
         | Inr dep \<Rightarrow>
             Inr (Constraint (Eq (V (COST_CON y x k))
               (Mul (Num (Fin (dep * (real (sum_list (map (m_time_res m) (m_t m))) / 8760))))
                    (Add (Add (Add cost_s_cap cost_r_cap) cost_r_area)
                         (Mul (Num (Fin (tech_cost m ''e_cap'' y k))) (V (E_CAP y x))))))))"

definition c_cost_op_rule :: "model \<Rightarrow> tech \<Rightarrow> loc \<Rightarrow> cost_class \<Rightarrow> error + rule_result" where
  "c_cost_op_rule m y x k =
     (let carrier = get_option_str m (y @ ''.carrier'')
      in if m_t m \<noteq> [] \<and> carrier \<notin> set (m_c m) then Inl KeyError
         else Inr (Constraint (Eq (V (COST_OP y x k))
           (Add (Add (Add (Mul (Num (Fin (tech_cost m ''om_frac'' y k))) (V (COST_CON y x k)))
                          (Mul (Num (Fin (tech_cost m ''om_fixed'' y k))) (V (E_CAP y x))))
                     (Mul (Num (Fin (tech_cost m ''om_var'' y k)))
                          (sum_expr (map (\<lambda>t. V (ES_PROD carrier y x t)) (m_t m)))))
                (Mul (Num (Fin (tech_cost m ''om_fuel'' y k)))
                     (sum_expr (map (\<lambda>t. V (RS y x t)) (m_t m))))))))"

subsection \<open>model_constraints\<close>

definition get_parents :: "model \<Rightarrow> int \<Rightarrow> loc list" where
  "get_parents m level = map loc_name (filter (\<lambda>l. loc_level l = level) (d_locations m))"

definition get_children :: "model \<Rightarrow> loc \<Rightarrow> loc list" where
  "get_children m parent =
     map loc_name (filter (\<lambda>l. loc_within l = Some parent) (d_locations m))"

definition c_system_balance_rule ::
  "model \<Rightarrow> carrier \<Rightarrow> loc \<Rightarrow> timestep \<Rightarrow> error + rule_result" where
  "c_system_balance_rule m c x t =
     (let parents = get_parents m 1
      in if x \<notin> set parents then Inr NoConstraint
         else
           let fam = get_children m x @ [x];
               total =
                 Add (sum_expr (concat (map (\<lambda>xs. map (\<lambda>y. V (ES_PROD c y xs t)) (m_y m)) fam)))
                     (sum_expr (concat (map (\<lambda>xs. map (\<lambda>y. V (ES_CON c y xs t)) (m_y m)) fam)))
           in if m_y m \<noteq> [] \<and> \<not> set fam \<subseteq> set (m_x m) then Inl KeyError
              else if c = ''power'' then Inr (Constraint (Eq total (Num (Fin 0))))
              else Inr (Constraint (Ge total (Num (Fin 0)))))"

subsection \<open>The programme as a whole\<close>

text \<open>
  The domains of the variable declarations, as the bounds the solver sees:
  \<^verbatim>\<open>NonNegativeReals\<close> is a lower bound of 0, \<^verbatim>\<open>NegativeReals\<close> an upper bound of 0,
  \<^verbatim>\<open>Reals\<close> no bound.
\<close>

definition domains :: "model \<Rightarrow> valuation \<Rightarrow> bool" where
  "domains m v =
     ((\<forall>y \<in> set (m_y_pc m). \<forall>x \<in> set (m_x m). \<forall>t \<in> set (m_t m). 0 \<le> v (S y x t))
    \<and> (\<forall>y \<in> set (m_y_def_r m). \<forall>x \<in> set (m_x m). 0 \<le> v (R_AREA y x))
    \<and> (\<forall>c \<in> set (m_c m). \<forall>y \<in> set (m_y m). \<forall>x \<in> set (m_x m). \<forall>t \<in> set (m_t m).
          0 \<le> v (ES_PROD c y x t) \<and> v (ES_CON c y x t) \<le> 0)
    \<and> (\<forall>y \<in> set (m_y_pc m). \<forall>x \<in> set (m_x m). 0 \<le> v (S_CAP y x))
    \<and> (\<forall>y \<in> set (m_y_def_r m). \<forall>x \<in> set (m_x m). 0 \<le> v (R_CAP y x))
    \<and> (\<forall>y \<in> set (m_y m). \<forall>x \<in> set (m_x m). 0 \<le> v (E_CAP y x))
    \<and> (\<forall>y \<in> set (m_y m). \<forall>x \<in> set (m_x m). \<forall>k \<in> set (m_k m).
          0 \<le> v (COST y x k) \<and> 0 \<le> v (COST_CON y x k) \<and> 0 \<le> v (COST_OP y x k)))"

text \<open>Each \<^verbatim>\<open>cp.Constraint\<close> declaration instantiates its rule on the product of its index sets.\<close>

definition energy_balance_ok :: "model \<Rightarrow> valuation \<Rightarrow> bool" where
  "energy_balance_ok m v =
     ((\<forall>y \<in> set (m_y_def_r m). \<forall>x \<in> set (m_x m). \<forall>t \<in> set (m_t m). holds v (c_rs_rule m y x t))
    \<and> (\<forall>y \<in> set (m_y_trans m). \<forall>x \<in> set (m_x m). \<forall>t \<in> set (m_t m).
          holds v (c_s_balance_transmission_rule m y x t))
    \<and> (\<forall>y \<in> set (m_y_conv m). \<forall>x \<in> set (m_x m). \<forall>t \<in> set (m_t m).
          holds v (c_s_balance_conversion_rule m y x t))
    \<and> (\<forall>y \<in> set (m_y_pc m). \<forall>x \<in> set (m_x m). \<forall>t \<in> set (m_t m).
          holds v (c_s_balance_pc_rule m y x t)))"

definition build_ok :: "model \<Rightarrow> valuation \<Rightarrow> bool" where
  "build_ok m v =
     ((\<forall>y \<in> set (m_y_pc m). \<forall>x \<in> set (m_x m). holds v (c_s_cap_rule m y x))
    \<and> (\<forall>y \<in> set (m_y_def_r m). \<forall>x \<in> set (m_x m). holds v (c_r_cap_rule m y x))
    \<and> (\<forall>y \<in> set (m_y_def_r m). \<forall>x \<in> set (m_x m). holds v (c_r_area_rule m y x))
    \<and> (\<forall>y \<in> set (m_y m). \<forall>x \<in> set (m_x m). holds v (c_e_cap_rule m y x)))"

definition operational_ok :: "model \<Rightarrow> valuation \<Rightarrow> bool" where
  "operational_ok m v =
     ((\<forall>y \<in> set (m_y_def_r m). \<forall>x \<in> set (m_x m). \<forall>t \<in> set (m_t m).
          holds v (c_rs_max_upper_rule m y x t) \<and> holds v (c_rs_max_lower_rule m y x t))
    \<and> (\<forall>c \<in> set (m_c m). \<forall>y \<in> set (m_y m). \<forall>x \<in> set (m_x m). \<forall>t \<in> set (m_t m).
          holds v (c_es_prod_max_rule m c y x t) \<and> holds v (c_es_prod_min_rule m c y x t)
          \<and> holds v (c_es_con_max_rule m c y x t))
    \<and> (\<forall>y \<in> set (m_y_pc m). \<forall>x \<in> set (m_x m). \<forall>t \<in> set (m_t m). holds v (c_s_max_rule m y x t)))"

definition transmission_ok :: "model \<Rightarrow> valuation \<Rightarrow> bool" where
  "transmission_ok m v =
     (\<forall>y \<in> set (m_y_trans m). \<forall>x \<in> set (m_x m). holds v (c_transmission_capacity_rule m y x))"

definition costs_ok :: "model \<Rightarrow> valuation \<Rightarrow> bool" where
  "costs_ok m v =
     (\<forall>y \<in> set (m_y m). \<forall>x \<in> set (m_x m). \<forall>k \<in> set (m_k m).
        holds v (c_cost_rule m y x k) \<and> holds v (c_cost_con_rule m y x k)
        \<and> holds v (c_cost_op_rule m y x k))"

definition system_balance_ok :: "model \<Rightarrow> valuation \<Rightarrow> bool" where
  "system_balance_ok m v =
     (\<forall>c \<in> set (m_c m). \<forall>x \<in> set (m_x m). \<forall>t \<in> set (m_t m). holds v (c_system_balance_rule m c x t))"

text \<open>A feasible solution: a valuation within the domains that meets every constraint.\<close>

definition feasible :: "model \<Rightarrow> valuation \<Rightarrow> bool" where
  "feasible m v =
     (domains m v \<and> energy_balance_ok m v \<and> build_ok m v \<and> operational_ok m v
      \<and> transmission_ok m v \<and> costs_ok m v \<and> system_balance_ok m v)"

subsection \<open>The depreciation rate as the specification words it\<close>

text \<open>
  The annuity formula of the specification, to be compared with \<open>depreciation_rate\<close>:
  \<^verbatim>\<open>rate = interest==0 ? 1/plant_life : interest*(1+interest)^plant_life / ((1+interest)^plant_life - 1)\<close>.
\<close>

definition spec_depreciation_rate :: "real \<Rightarrow> nat \<Rightarrow> real" where
  "spec_depreciation_rate interest plant_life =
     (if interest = 0 then 1 / real plant_life
      else interest * (1 + interest) ^ plant_life / ((1 + interest) ^ plant_life - 1))"

subsection \<open>Example instances\<close>

text \<open>
  A single site with one technology that collects a resource, stores it and delivers heat,
  planned over two timesteps of one and two hours. Half of the stored energy is lost per
  hour, the store starts with 8 units and may hold 8.
\<close>

definition storage_site :: model where
  "storage_site =
     \<lparr> mode = ''plan'',
       m_y = [''csp''], m_x = [''r1''], m_t = [0, 1], m_c = [''heat'', ''power''],
       m_k = [''monetary''],
       m_y_pc = [''csp''], m_y_def_r = [''csp''], m_y_trans = [], m_y_conv = [],
       m_y_def_e_eff = [],
       m_time_res = (\<lambda>t. if t = 0 then 1 else 2),
       m_r = (\<lambda>y x t. if t = 1 then 3 else 0),
       m_e_eff = (\<lambda>y x t. 1),
       d_e_eff = (\<lambda>y x. 1),
       d_s_init = None,
       d_transmission_y = [],
       d_locations = [\<lparr> loc_name = ''r1'', loc_level = 1, loc_within = None \<rparr>],
       d_locations_ix = (\<lambda>x y. 1),
       get_option_num = (\<lambda>key x.
         if key = ''csp.constraints.s_loss'' then 1 / 2
         else if key = ''csp.constraints.s_init'' then 8
         else if key = ''csp.constraints.r_eff'' then 1
         else if key = ''csp.constraints.r_scale'' then 1
         else if key = ''csp.constraints.e_cap_max_scale'' then 2
         else 0),
       get_option_max = (\<lambda>key x.
         if key = ''csp.constraints.s_cap_max'' then Fin 8
         else if key = ''csp.constraints.e_cap_max'' then Fin 100
         else PInf),
       get_option_nat = (\<lambda>key. 25),
       get_option_flag = (\<lambda>key x. False),
       get_option_str = (\<lambda>key. ''heat''),
       get_option_or_false = (\<lambda>key x. None),
       get_option_default = (\<lambda>key dflt. if key = ''csp.costs.monetary.e_cap'' then 1000 else 0),
       get_eff_ref = (\<lambda>kind y x. 1),
       get_remotes = (\<lambda>y x. (y, x)) \<rparr>"

text \<open>
  A solution of \<open>storage_site\<close>: in the first hour one unit is collected and one unit of
  heat delivered, the store stays at 8; over the second step it decays to 4.
\<close>

definition ramp :: valuation where
  "ramp u =
     (if u = S ''csp'' ''r1'' 0 then 8
      else if u = S ''csp'' ''r1'' 1 then 4
      else if u = S_CAP ''csp'' ''r1'' then 8
      else if u = R_AREA ''csp'' ''r1'' then 1
      else if u = RS ''csp'' ''r1'' 0 then 1
      else if u = ES_PROD ''heat'' ''csp'' ''r1'' 0 then 1
      else if u = R_CAP ''csp'' ''r1'' then 1
      else if u = E_CAP ''csp'' ''r1'' then 1
      else if u = COST_CON ''csp'' ''r1'' ''monetary'' then 3 / 219000 * 1000
      else if u = COST ''csp'' ''r1'' ''monetary'' then 3 / 219000 * 1000
      else 0)"

text \<open>The same site in operation mode.\<close>

definition storage_site_operate :: model where
  "storage_site_operate = storage_site \<lparr> mode := ''operate'' \<rparr>"

text \<open>The same site with a technology whose conversion efficiency is zero.\<close>

definition dead_site :: model where
  "dead_site = storage_site \<lparr> d_e_eff := (\<lambda>y x. 0) \<rparr>"

text \<open>
  The same site, where the technology declares no storage (\<^verbatim>\<open>s_cap_max\<close> is 0) and the
  location overrides the maximum with 5.
\<close>

definition override_site :: model where
  "override_site =
     storage_site \<lparr> get_option_max := (\<lambda>key x.
       if key = ''csp.constraints.s_cap_max'' then (if x = None then Fin 0 else Fin 5)
       else if key = ''csp.constraints.e_cap_max'' then Fin 100
       else PInf) \<rparr>"

definition parked :: valuation where
  "parked u =
     (if u = S ''csp'' ''r1'' 0 then 3
      else if u = S ''csp'' ''r1'' 1 then 3
      else if u = S_CAP ''csp'' ''r1'' then 5
      else if u = R_AREA ''csp'' ''r1'' then 1
      else 0)"

text \<open>The same site with no storage at any level: the maximum is 0 at the location too.\<close>

definition no_store_site :: model where
  "no_store_site =
     storage_site \<lparr> get_option_max := (\<lambda>key x.
       if key = ''csp.constraints.s_cap_max'' then Fin 0
       else if key = ''csp.constraints.e_cap_max'' then Fin 100
       else PInf) \<rparr>"

definition idle :: valuation where
  "idle u = (if u = R_AREA ''csp'' ''r1'' then 1 else 0)"

text \<open>The same site with an unbounded storage capacity.\<close>

definition unbounded_store :: model where
  "unbounded_store =
     storage_site \<lparr> get_option_max := (\<lambda>key x.
       if key = ''csp.constraints.e_cap_max'' then Fin 100 else PInf) \<rparr>"

text \<open>The same site over a horizon of a single timestep of one hour.\<close>

definition single_step :: model where
  "single_step = storage_site \<lparr> m_t := [0] \<rparr>"

definition held :: valuation where
  "held u =
     (if u = S ''csp'' ''r1'' 0 then 8
      else if u = S_CAP ''csp'' ''r1'' then 8
      else if u = R_AREA ''csp'' ''r1'' then 1
      else 0)"

text \<open>
  Two sites joined by a line. The technology \<^verbatim>\<open>ac:b\<close> at site \<^verbatim>\<open>a\<close> is the end of the line
  to \<^verbatim>\<open>b\<close>, and its remote end is \<^verbatim>\<open>ac:a\<close> at site \<^verbatim>\<open>b\<close>.
\<close>

definition link_pair :: model where
  "link_pair =
     \<lparr> mode = ''plan'',
       m_y = [''ac:a'', ''ac:b''], m_x = [''a'', ''b''], m_t = [0], m_c = [''power''],
       m_k = [''monetary''],
       m_y_pc = [], m_y_def_r = [], m_y_trans = [''ac:a'', ''ac:b''], m_y_conv = [],
       m_y_def_e_eff = [],
       m_time_res = (\<lambda>t. 1),
       m_r = (\<lambda>y x t. 0),
       m_e_eff = (\<lambda>y x t. 1),
       d_e_eff = (\<lambda>y x. 1),
       d_s_init = None,
       d_transmission_y = [''ac:a'', ''ac:b''],
       d_locations = [\<lparr> loc_name = ''a'', loc_level = 1, loc_within = None \<rparr>,
                      \<lparr> loc_name = ''b'', loc_level = 1, loc_within = None \<rparr>],
       d_locations_ix = (\<lambda>x y. 1),
       get_option_num = (\<lambda>key x.
         if key = ''ac:a.constraints.e_cap_max_scale'' \<or> key = ''ac:b.constraints.e_cap_max_scale''
         then 1 else 0),
       get_option_max = (\<lambda>key x. Fin 100),
       get_option_nat = (\<lambda>key. 25),
       get_option_flag = (\<lambda>key x. False),
       get_option_str = (\<lambda>key. ''power''),
       get_option_or_false = (\<lambda>key x. None),
       get_option_default = (\<lambda>key dflt. 0),
       get_eff_ref = (\<lambda>kind y x. 1),
       get_remotes = (\<lambda>y x.
         if y = ''ac:b'' \<and> x = ''a'' then (''ac:a'', ''b'')
         else if y = ''ac:a'' \<and> x = ''b'' then (''ac:b'', ''a'')
         else (y, x)) \<rparr>"

definition tied :: valuation where
  "tied u = (case u of E_CAP y x \<Rightarrow> 7 | _ \<Rightarrow> 0)"

text \<open>The same site financed at an interest of 100 percent over a plant life of one year.\<close>

definition loan_site :: model where
  "loan_site =
     storage_site \<lparr> get_option_nat := (\<lambda>key. 1),
                    get_option_default := (\<lambda>key dflt.
                      if key = ''csp.depreciation.interest.monetary'' then 1 else 0) \<rparr>"



text \<open>The zero-efficiency site without storage, and in operation mode with a table of initial storage.\<close>

definition dead_no_store_site :: model where
  "dead_no_store_site = no_store_site \<lparr> d_e_eff := (\<lambda>y x. 0) \<rparr>"

definition dead_operate_site :: model where
  "dead_operate_site =
     dead_site \<lparr> mode := ''operate'',
                 d_s_init := Some (\<lambda>k. if k = (''r1'', ''csp'') then Some 6 else None) \<rparr>"

section \<open>Properties\<close>

subsection \<open>Evaluation of the expressions the rules build\<close>

lemma pf_eq_Fin [simp]: "pf_eq (Fin a) (Fin b) \<longleftrightarrow> a = b"
  by (simp add: pf_eq_def)

lemma pf_sub_Fin [simp]: "pf_sub (Fin a) (Fin b) = Fin (a - b)"
  by (simp add: pf_sub_def)

lemma eval_foldl_Add:
  "eval v acc = Fin a \<Longrightarrow>
   eval v (foldl Add acc (map (\<lambda>i. V (f i)) is)) = Fin (a + sum_list (map (\<lambda>i. v (f i)) is))"
  by (induction "is" arbitrary: acc a) (simp_all add: add.assoc)

lemma eval_sum_expr:
  "eval v (sum_expr (map (\<lambda>i. V (f i)) is)) = Fin (sum_list (map (\<lambda>i. v (f i)) is))"
  by (simp add: sum_expr_def eval_foldl_Add)

lemma order_dict_pos: "order_dict us t = Some n \<Longrightarrow> 0 < n"
  by (induction us arbitrary: n) (auto split: if_splits)

lemma order_dict_mem: "t \<in> set us \<Longrightarrow> \<exists>n. order_dict us t = Some n"
  by (induction us) auto

lemma order_dict_prev:
  "order_dict us t = Some n \<Longrightarrow> 1 < n \<Longrightarrow> \<exists>p. prev us t = Inr p \<and> p \<in> set us"
proof (induction us t arbitrary: n rule: prev.induct)
  case (1 t)
  then show ?case by simp
next
  case (2 u t)
  then show ?case by (simp split: if_splits)
next
  case (3 u w us t)
  show ?case
  proof (cases "w = t")
    case True
    with 3 show ?thesis by (auto split: if_splits)
  next
    case False
    with 3 obtain k where k: "order_dict (w # us) t = Some k" "u \<noteq> t"
      by (auto split: if_splits)
    with False have "1 < k" using order_dict_pos[of us t] by (auto split: if_splits)
    with 3 k False show ?thesis by auto
  qed
qed

lemma eval_es_prod_term:
  "eval v (es_prod_term m y x t) =
     Fin (if get_e_eff m y x t = 0 then 0
          else (\<Sum>c\<leftarrow>m_c m. v (ES_PROD c y x t)) / get_e_eff m y x t)"
  by (simp add: es_prod_term_def eval_sum_expr)

lemma eval_es_con_term:
  "eval v (es_con_term m y x t) = Fin ((\<Sum>c\<leftarrow>m_c m. v (ES_CON c y x t)) * get_e_eff m y x t)"
  by (simp add: es_con_term_def eval_sum_expr)

lemma sum_list_all_zero: "\<forall>i \<in> set is. f i = (0::real) \<Longrightarrow> sum_list (map f is) = 0"
  by (induction "is") simp_all

lemmas rule_defs =
  c_rs_rule_def c_s_balance_transmission_rule_def c_s_balance_conversion_rule_def
  c_s_balance_pc_rule_def es_prod_term_def es_con_term_def get_e_eff_def
  c_s_cap_rule_def c_r_cap_rule_def c_r_area_rule_def c_e_cap_rule_def isinf_def
  c_rs_max_upper_rule_def c_rs_max_lower_rule_def c_es_prod_max_rule_def
  c_es_prod_min_rule_def c_es_con_max_rule_def c_s_max_rule_def
  c_transmission_capacity_rule_def c_cost_rule_def c_cost_con_rule_def c_cost_op_rule_def
  depreciation_rate_def tech_cost_def c_system_balance_rule_def get_parents_def
  get_children_def sum_expr_def Let_def

lemmas feasible_defs =
  feasible_def domains_def energy_balance_ok_def build_ok_def operational_ok_def
  transmission_ok_def costs_ok_def system_balance_ok_def

subsection \<open>The example solutions are feasible\<close>

lemma storage_site_feasible: "feasible storage_site ramp"
  by (simp add: feasible_defs rule_defs storage_site_def ramp_def)

lemma override_site_feasible: "feasible override_site parked"
  by (simp add: feasible_defs rule_defs override_site_def storage_site_def parked_def)

lemma no_store_site_feasible: "feasible no_store_site idle"
  by (simp add: feasible_defs rule_defs no_store_site_def storage_site_def idle_def)

lemma single_step_feasible: "feasible single_step held"
  by (simp add: feasible_defs rule_defs single_step_def storage_site_def held_def)

lemma link_pair_feasible: "feasible link_pair tied"
  by (simp add: feasible_defs rule_defs link_pair_def tied_def)

subsection \<open>Storage balance\<close>

text \<open>
  C1, as the code has it. For a technology with storage (\<^verbatim>\<open>s_cap_max\<close> not 0) and a
  timestep \<open>t\<close> that is not the first of the sequence, the rule yields the relation
  \<^verbatim>\<open>s(t) = (1 - s_loss)^time_res(prev(t)) * s(prev(t)) + rs(t) - es_prod(t)/e_eff - es_con(t)*e_eff\<close>:
  the exponent of the loss factor is the duration of the predecessor of \<open>t\<close>. The
  production term is 0 when the efficiency is 0.
\<close>

theorem c_s_balance_pc_rule_recurrence:
  assumes "get_option_max m (y @ ''.constraints.s_cap_max'') None \<noteq> Fin 0"
    and "order_dict (m_t m) t = Some n" and "1 < n"
  shows "\<exists>p. prev (m_t m) t = Inr p
           \<and> (\<exists>c. c_s_balance_pc_rule m y x t = Inr (Constraint c))
           \<and> (holds v (c_s_balance_pc_rule m y x t) \<longleftrightarrow>
                v (S y x t) =
                  (1 - get_option_num m (y @ ''.constraints.s_loss'') None) ^ m_time_res m p
                    * v (S y x p)
                  + v (RS y x t)
                  - (if get_e_eff m y x t = 0 then 0
                     else (\<Sum>c\<leftarrow>m_c m. v (ES_PROD c y x t)) / get_e_eff m y x t)
                  - (\<Sum>c\<leftarrow>m_c m. v (ES_CON c y x t)) * get_e_eff m y x t)"
proof -
  from assms(2,3) obtain p where p: "prev (m_t m) t = Inr p"
    using order_dict_prev by blast
  with assms show ?thesis
    by (simp add: c_s_balance_pc_rule_def Let_def eval_es_prod_term eval_es_con_term)
qed

theorem c_s_balance_pc_rule_recurrence_witness:
  "get_option_max storage_site (''csp'' @ ''.constraints.s_cap_max'') None \<noteq> Fin 0
   \<and> order_dict (m_t storage_site) 1 = Some 2 \<and> (1::nat) < 2
   \<and> prev (m_t storage_site) 1 = Inr 0
   \<and> holds ramp (c_s_balance_pc_rule storage_site ''csp'' ''r1'' 1)
   \<and> ramp (S ''csp'' ''r1'' 1) = (1 - 1 / 2) ^ 1 * ramp (S ''csp'' ''r1'' 0)"
proof -
  have a: "get_option_max storage_site (''csp'' @ ''.constraints.s_cap_max'') None \<noteq> Fin 0"
    by (simp add: storage_site_def)
  have b: "order_dict (m_t storage_site) 1 = Some 2"
    by (simp add: storage_site_def)
  have c: "prev (m_t storage_site) 1 = Inr 0"
    by (simp add: storage_site_def)
  from c_s_balance_pc_rule_recurrence [OF a b, where v = ramp and x = "''r1''"] c
  have "holds ramp (c_s_balance_pc_rule storage_site ''csp'' ''r1'' 1)"
    by (simp add: storage_site_def ramp_def get_e_eff_def)
  with a b c show ?thesis by (simp add: ramp_def)
qed

text \<open>
  C1 as stated fails: in \<open>storage_site\<close> the steps last one and two hours, and the feasible
  solution \<open>ramp\<close> meets the generated relation at the second step, where the store has
  decayed for the one hour of the first step; with the two hours of the second step as
  exponent the stored energy would be 2, not 4.
\<close>

theorem c_s_balance_pc_rule_current_duration_counterexample:
  "feasible storage_site ramp
   \<and> holds ramp (c_s_balance_pc_rule storage_site ''csp'' ''r1'' 1)
   \<and> prev (m_t storage_site) 1 = Inr 0
   \<and> ramp (S ''csp'' ''r1'' 1) \<noteq>
        ramp (S ''csp'' ''r1'' 0)
          * (1 - get_option_num storage_site ''csp.constraints.s_loss'' None)
              ^ m_time_res storage_site 1
        + ramp (RS ''csp'' ''r1'' 1)
        - (ramp (ES_PROD ''heat'' ''csp'' ''r1'' 1) + ramp (ES_PROD ''power'' ''csp'' ''r1'' 1))
            / get_e_eff storage_site ''csp'' ''r1'' 1
        - (ramp (ES_CON ''heat'' ''csp'' ''r1'' 1) + ramp (ES_CON ''power'' ''csp'' ''r1'' 1))
            * get_e_eff storage_site ''csp'' ''r1'' 1"
  using storage_site_feasible
  by (simp add: c_s_balance_pc_rule_def es_prod_term_def es_con_term_def get_e_eff_def
      storage_site_def ramp_def sum_expr_def power2_eq_square)

subsection \<open>Zero efficiency\<close>

text \<open>
  C2. When the efficiency used by the storage-balance rule is exactly zero, the rule does
  not raise \<^verbatim>\<open>ZeroDivisionError\<close>: the production term \<^verbatim>\<open>es_prod\<close> is the constant 0, and
  for a timestep of the sequence (and an initial-storage table, where one is given, that
  has the entry) the rule returns a relation. That relation is the balance with neither
  production nor consumption in it: \<^verbatim>\<open>0 = rs\<close> for a technology without storage, and
  \<^verbatim>\<open>s(t) = s_minus_one + rs(t)\<close> otherwise, where \<^verbatim>\<open>s_minus_one\<close> is the decayed storage of
  the predecessor, the entry of the initial-storage table, or the option \<^verbatim>\<open>s_init\<close>. So
  two valuations that differ only in the production and consumption variables of the node
  satisfy it alike: the technology contributes zero production whatever its consumption.
\<close>

theorem c_s_balance_pc_rule_zero_efficiency:
  fixes m :: model and y :: tech and x :: loc and t :: timestep
  defines "rule \<equiv> c_s_balance_pc_rule m y x t"
    and "storage \<equiv> get_option_max m (y @ ''.constraints.s_cap_max'') None \<noteq> Fin 0"
  assumes "get_e_eff m y x t = 0"
  shows "rule \<noteq> Inl ZeroDivisionError
         \<and> es_prod_term m y x t = Num (Fin 0)
         \<and> (t \<in> set (m_t m) \<and> (\<forall>tab. d_s_init m = Some tab \<longrightarrow> tab (x, y) \<noteq> None)
              \<longrightarrow> (\<exists>c. rule = Inr (Constraint c)))
         \<and> (\<not> storage \<longrightarrow>
              (\<exists>c. rule = Inr (Constraint c)) \<and> (\<forall>v. holds v rule \<longleftrightarrow> 0 = v (RS y x t)))
         \<and> (\<forall>n p. storage \<and> order_dict (m_t m) t = Some n \<and> 1 < n \<and> prev (m_t m) t = Inr p \<longrightarrow>
              (\<exists>c. rule = Inr (Constraint c))
              \<and> (\<forall>v. holds v rule \<longleftrightarrow>
                     v (S y x t) =
                       (1 - get_option_num m (y @ ''.constraints.s_loss'') None) ^ m_time_res m p
                         * v (S y x p)
                       + v (RS y x t)))
         \<and> (\<forall>n tab s0. storage \<and> order_dict (m_t m) t = Some n \<and> \<not> 1 < n
                \<and> mode m = ''operate'' \<and> d_s_init m = Some tab \<and> tab (x, y) = Some s0 \<longrightarrow>
              (\<exists>c. rule = Inr (Constraint c))
              \<and> (\<forall>v. holds v rule \<longleftrightarrow> v (S y x t) = s0 + v (RS y x t)))
         \<and> (\<forall>n. storage \<and> order_dict (m_t m) t = Some n \<and> \<not> 1 < n
                \<and> (mode m \<noteq> ''operate'' \<or> d_s_init m = None) \<longrightarrow>
              (\<exists>c. rule = Inr (Constraint c))
              \<and> (\<forall>v. holds v rule \<longleftrightarrow>
                     v (S y x t) =
                       get_option_num m (y @ ''.constraints.s_init'') (Some x) + v (RS y x t)))
         \<and> (\<forall>c. rule = Inr (Constraint c) \<longrightarrow>
              (\<forall>v w. (\<forall>u. (\<forall>c'. u \<noteq> ES_PROD c' y x t \<and> u \<noteq> ES_CON c' y x t) \<longrightarrow> v u = w u)
                     \<longrightarrow> sat v c = sat w c))"
proof -
  have e: "eval v (es_prod_term m y x t) = Fin 0" "eval v (es_con_term m y x t) = Fin 0" for v
    using assms(3) by (simp_all add: eval_es_prod_term eval_es_con_term)
  have 1: "rule \<noteq> Inl ZeroDivisionError"
    unfolding rule_def
    by (auto simp: c_s_balance_pc_rule_def Let_def dest!: order_dict_prev
        split: option.splits sum.splits if_splits)
  have 2: "es_prod_term m y x t = Num (Fin 0)"
    using assms(3) by (simp add: es_prod_term_def)
  have 3: "\<exists>c. rule = Inr (Constraint c)"
    if wf: "t \<in> set (m_t m) \<and> (\<forall>tab. d_s_init m = Some tab \<longrightarrow> tab (x, y) \<noteq> None)"
  proof -
    from wf obtain n where n: "order_dict (m_t m) t = Some n"
      using order_dict_mem by blast
    show ?thesis
    proof (cases "1 < n")
      case True
      with n obtain p where "prev (m_t m) t = Inr p" using order_dict_prev by blast
      with n True show ?thesis by (simp add: rule_def c_s_balance_pc_rule_def Let_def)
    next
      case False
      with n wf show ?thesis
        by (auto simp: rule_def c_s_balance_pc_rule_def Let_def split: option.splits)
    qed
  qed
  have 4: "(\<exists>c. rule = Inr (Constraint c)) \<and> (\<forall>v. holds v rule \<longleftrightarrow> 0 = v (RS y x t))"
    if "\<not> storage"
    using that unfolding rule_def storage_def
    by (simp add: c_s_balance_pc_rule_def Let_def e)
  have 5: "(\<exists>c. rule = Inr (Constraint c))
           \<and> (\<forall>v. holds v rule \<longleftrightarrow>
                  v (S y x t) =
                    (1 - get_option_num m (y @ ''.constraints.s_loss'') None) ^ m_time_res m p
                      * v (S y x p)
                    + v (RS y x t))"
    if "storage \<and> order_dict (m_t m) t = Some n \<and> 1 < n \<and> prev (m_t m) t = Inr p" for n p
    using that unfolding rule_def storage_def
    by (simp add: c_s_balance_pc_rule_def Let_def e)
  have 6: "(\<exists>c. rule = Inr (Constraint c))
           \<and> (\<forall>v. holds v rule \<longleftrightarrow> v (S y x t) = s0 + v (RS y x t))"
    if "storage \<and> order_dict (m_t m) t = Some n \<and> \<not> 1 < n
        \<and> mode m = ''operate'' \<and> d_s_init m = Some tab \<and> tab (x, y) = Some s0" for n tab s0
    using that unfolding rule_def storage_def
    by (simp add: c_s_balance_pc_rule_def Let_def e)
  have 7: "(\<exists>c. rule = Inr (Constraint c))
           \<and> (\<forall>v. holds v rule \<longleftrightarrow>
                  v (S y x t) =
                    get_option_num m (y @ ''.constraints.s_init'') (Some x) + v (RS y x t))"
    if "storage \<and> order_dict (m_t m) t = Some n \<and> \<not> 1 < n
        \<and> (mode m \<noteq> ''operate'' \<or> d_s_init m = None)" for n
    using that unfolding rule_def storage_def
    by (auto simp: c_s_balance_pc_rule_def Let_def e)
  have 8: "sat v c = sat w c"
    if c: "rule = Inr (Constraint c)"
      and agree: "\<forall>u. (\<forall>c'. u \<noteq> ES_PROD c' y x t \<and> u \<noteq> ES_CON c' y x t) \<longrightarrow> v u = w u"
    for c and v w :: valuation
  proof -
    have s: "v (S y x t') = w (S y x t')" "v (RS y x t') = w (RS y x t')" for t'
      using agree by simp_all
    from c show ?thesis
      unfolding rule_def
      by (auto simp: c_s_balance_pc_rule_def Let_def e s split: option.splits sum.splits if_splits)
  qed
  from 1 2 3 4 5 6 7 8 show ?thesis by blast
qed

theorem c_s_balance_pc_rule_zero_efficiency_witness:
  "get_e_eff dead_site ''csp'' ''r1'' 0 = 0 \<and> get_e_eff dead_site ''csp'' ''r1'' 1 = 0
   \<and> get_e_eff dead_no_store_site ''csp'' ''r1'' 0 = 0
   \<and> get_e_eff dead_operate_site ''csp'' ''r1'' 0 = 0
   \<and> 0 \<in> set (m_t dead_site) \<and> d_s_init dead_site = None
   \<and> c_s_balance_pc_rule dead_site ''csp'' ''r1'' 0 \<noteq> Inl ZeroDivisionError
   \<and> holds held (c_s_balance_pc_rule dead_site ''csp'' ''r1'' 0)
   \<and> holds (held (ES_PROD ''heat'' ''csp'' ''r1'' 0 := 5, ES_CON ''heat'' ''csp'' ''r1'' 0 := - 2))
        (c_s_balance_pc_rule dead_site ''csp'' ''r1'' 0)
   \<and> \<not> holds (held (S ''csp'' ''r1'' 0 := 7)) (c_s_balance_pc_rule dead_site ''csp'' ''r1'' 0)
   \<and> holds ramp (c_s_balance_pc_rule dead_site ''csp'' ''r1'' 1)
   \<and> \<not> holds (ramp (S ''csp'' ''r1'' 1 := 2)) (c_s_balance_pc_rule dead_site ''csp'' ''r1'' 1)
   \<and> holds (idle (ES_PROD ''heat'' ''csp'' ''r1'' 0 := 5))
        (c_s_balance_pc_rule dead_no_store_site ''csp'' ''r1'' 0)
   \<and> \<not> holds (idle (RS ''csp'' ''r1'' 0 := 1))
          (c_s_balance_pc_rule dead_no_store_site ''csp'' ''r1'' 0)
   \<and> holds (held (S ''csp'' ''r1'' 0 := 6)) (c_s_balance_pc_rule dead_operate_site ''csp'' ''r1'' 0)
   \<and> \<not> holds held (c_s_balance_pc_rule dead_operate_site ''csp'' ''r1'' 0)"
proof -
  let ?w = "held (ES_PROD ''heat'' ''csp'' ''r1'' 0 := 5, ES_CON ''heat'' ''csp'' ''r1'' 0 := - 2)"
  have a: "get_e_eff dead_site ''csp'' ''r1'' 0 = 0"
    by (simp add: get_e_eff_def dead_site_def storage_site_def)
  have a1: "get_e_eff dead_site ''csp'' ''r1'' 1 = 0"
    by (simp add: get_e_eff_def dead_site_def storage_site_def)
  have a2: "get_e_eff dead_no_store_site ''csp'' ''r1'' 0 = 0"
    by (simp add: get_e_eff_def dead_no_store_site_def no_store_site_def storage_site_def)
  have a3: "get_e_eff dead_operate_site ''csp'' ''r1'' 0 = 0"
    by (simp add: get_e_eff_def dead_operate_site_def dead_site_def storage_site_def)
  have b: "0 \<in> set (m_t dead_site)" "d_s_init dead_site = None"
    by (simp_all add: dead_site_def storage_site_def)
  note z = c_s_balance_pc_rule_zero_efficiency [OF a]
  note z1 = c_s_balance_pc_rule_zero_efficiency [OF a1]
  note z2 = c_s_balance_pc_rule_zero_efficiency [OF a2]
  note z3 = c_s_balance_pc_rule_zero_efficiency [OF a3]
  have first: "get_option_max dead_site (''csp'' @ ''.constraints.s_cap_max'') None \<noteq> Fin 0
      \<and> order_dict (m_t dead_site) 0 = Some 1 \<and> \<not> (1::nat) < 1
      \<and> (mode dead_site \<noteq> ''operate'' \<or> d_s_init dead_site = None)"
    by (simp add: dead_site_def storage_site_def)
  note f = z [THEN conjunct2, THEN conjunct2, THEN conjunct2, THEN conjunct2, THEN conjunct2,
      THEN conjunct2, THEN conjunct1, rule_format, OF first, THEN conjunct2, rule_format]
  have s_init: "get_option_num dead_site (''csp'' @ ''.constraints.s_init'') (Some ''r1'') = 8"
    by (simp add: dead_site_def storage_site_def)
  have hv: "holds held (c_s_balance_pc_rule dead_site ''csp'' ''r1'' 0)"
    using f s_init by (simp add: held_def)
  have hw: "holds ?w (c_s_balance_pc_rule dead_site ''csp'' ''r1'' 0)"
    using f s_init by (simp add: held_def)
  have hn: "\<not> holds (held (S ''csp'' ''r1'' 0 := 7)) (c_s_balance_pc_rule dead_site ''csp'' ''r1'' 0)"
    using f s_init by (simp add: held_def)
  have later: "get_option_max dead_site (''csp'' @ ''.constraints.s_cap_max'') None \<noteq> Fin 0
      \<and> order_dict (m_t dead_site) 1 = Some 2 \<and> (1::nat) < 2
      \<and> prev (m_t dead_site) 1 = Inr 0"
    by (simp add: dead_site_def storage_site_def)
  note g = z1 [THEN conjunct2, THEN conjunct2, THEN conjunct2, THEN conjunct2, THEN conjunct1,
      rule_format, OF later, THEN conjunct2, rule_format]
  have loss: "get_option_num dead_site (''csp'' @ ''.constraints.s_loss'') None = 1 / 2"
    "m_time_res dead_site 0 = 1"
    by (simp_all add: dead_site_def storage_site_def)
  have r1: "holds ramp (c_s_balance_pc_rule dead_site ''csp'' ''r1'' 1)"
    using g loss by (simp add: ramp_def)
  have r2: "\<not> holds (ramp (S ''csp'' ''r1'' 1 := 2)) (c_s_balance_pc_rule dead_site ''csp'' ''r1'' 1)"
    using g loss by (simp add: ramp_def)
  have none: "\<not> get_option_max dead_no_store_site (''csp'' @ ''.constraints.s_cap_max'') None \<noteq> Fin 0"
    by (simp add: dead_no_store_site_def no_store_site_def storage_site_def)
  note h = z2 [THEN conjunct2, THEN conjunct2, THEN conjunct2, THEN conjunct1, rule_format,
      OF none, THEN conjunct2, rule_format]
  have n1: "holds (idle (ES_PROD ''heat'' ''csp'' ''r1'' 0 := 5))
      (c_s_balance_pc_rule dead_no_store_site ''csp'' ''r1'' 0)"
    using h by (simp add: idle_def)
  have n2: "\<not> holds (idle (RS ''csp'' ''r1'' 0 := 1))
      (c_s_balance_pc_rule dead_no_store_site ''csp'' ''r1'' 0)"
    using h by simp
  have op: "get_option_max dead_operate_site (''csp'' @ ''.constraints.s_cap_max'') None \<noteq> Fin 0
      \<and> order_dict (m_t dead_operate_site) 0 = Some 1 \<and> \<not> (1::nat) < 1
      \<and> mode dead_operate_site = ''operate''
      \<and> d_s_init dead_operate_site
           = Some (\<lambda>k. if k = (''r1'', ''csp'') then Some 6 else None)
      \<and> (\<lambda>k. if k = (''r1'', ''csp'') then Some (6::real) else None) (''r1'', ''csp'') = Some 6"
    by (simp add: dead_operate_site_def dead_site_def storage_site_def)
  note o = z3 [THEN conjunct2, THEN conjunct2, THEN conjunct2, THEN conjunct2, THEN conjunct2,
      THEN conjunct1, rule_format, OF op, THEN conjunct2, rule_format]
  have o1: "holds (held (S ''csp'' ''r1'' 0 := 6))
      (c_s_balance_pc_rule dead_operate_site ''csp'' ''r1'' 0)"
    using o by (simp add: held_def)
  have o2: "\<not> holds held (c_s_balance_pc_rule dead_operate_site ''csp'' ''r1'' 0)"
    using o by (simp add: held_def)
  note nz = z [THEN conjunct1]
  show ?thesis
    by (intro conjI) (fact a a1 a2 a3 b nz hv hw hn r1 r2 n1 n2 o1 o2)+
qed

subsection \<open>Resource availability\<close>

text \<open>
  C3, as the code has it. For a technology with a resource, with
  \<^verbatim>\<open>available = r(y,x,t) * r_scale * r_area(y,x) * r_eff\<close>: the relation is
  \<^verbatim>\<open>rs == available\<close> when \<^verbatim>\<open>force_r\<close> is set; otherwise \<^verbatim>\<open>rs <= available\<close> when the raw
  signal is strictly positive, and \<^verbatim>\<open>rs >= available\<close> when it is zero or negative.
\<close>

theorem c_rs_rule_direction:
  assumes "y \<in> set (m_y_def_r m)"
  shows "(\<exists>c. c_rs_rule m y x t = Inr (Constraint c))
         \<and> (holds v (c_rs_rule m y x t) \<longleftrightarrow>
              (if get_option_flag m (y @ ''.constraints.force_r'') None
               then v (RS y x t) =
                      m_r m y x t * get_option_num m (y @ ''.constraints.r_scale'') (Some x)
                        * v (R_AREA y x) * get_option_num m (y @ ''.constraints.r_eff'') None
               else if 0 < m_r m y x t
               then v (RS y x t) \<le>
                      m_r m y x t * get_option_num m (y @ ''.constraints.r_scale'') (Some x)
                        * v (R_AREA y x) * get_option_num m (y @ ''.constraints.r_eff'') None
               else m_r m y x t * get_option_num m (y @ ''.constraints.r_scale'') (Some x)
                      * v (R_AREA y x) * get_option_num m (y @ ''.constraints.r_eff'') None
                    \<le> v (RS y x t)))"
  using assms by (simp add: c_rs_rule_def Let_def)

theorem c_rs_rule_direction_witness:
  "''csp'' \<in> set (m_y_def_r storage_site)
   \<and> holds ramp (c_rs_rule storage_site ''csp'' ''r1'' 1)
   \<and> ramp (RS ''csp'' ''r1'' 1) \<le> 3 * ramp (R_AREA ''csp'' ''r1'')
   \<and> holds ramp (c_rs_rule storage_site ''csp'' ''r1'' 0)
   \<and> 0 \<le> ramp (RS ''csp'' ''r1'' 0)"
proof -
  have a: "''csp'' \<in> set (m_y_def_r storage_site)"
    by (simp add: storage_site_def)
  have "holds ramp (c_rs_rule storage_site ''csp'' ''r1'' 1)"
    using c_rs_rule_direction [OF a, where v = ramp and x = "''r1''" and t = 1]
    by (simp add: storage_site_def ramp_def)
  moreover have "holds ramp (c_rs_rule storage_site ''csp'' ''r1'' 0)"
    using c_rs_rule_direction [OF a, where v = ramp and x = "''r1''" and t = 0]
    by (simp add: storage_site_def ramp_def)
  ultimately show ?thesis using a by (simp add: ramp_def)
qed

text \<open>
  C3 as stated fails for a raw signal of exactly zero: the signal is non-negative, yet the
  generated relation is the lower bound. In \<open>storage_site\<close> the signal of the first step is
  0; the feasible solution \<open>ramp\<close> has a resource flow of 1 there, above the available 0.
\<close>

theorem c_rs_rule_zero_signal_counterexample:
  "''csp'' \<in> set (m_y_def_r storage_site)
   \<and> \<not> get_option_flag storage_site ''csp.constraints.force_r'' None
   \<and> 0 \<le> m_r storage_site ''csp'' ''r1'' 0
   \<and> feasible storage_site ramp
   \<and> holds ramp (c_rs_rule storage_site ''csp'' ''r1'' 0)
   \<and> \<not> ramp (RS ''csp'' ''r1'' 0)
         \<le> m_r storage_site ''csp'' ''r1'' 0
             * get_option_num storage_site ''csp.constraints.r_scale'' (Some ''r1'')
             * ramp (R_AREA ''csp'' ''r1'')
             * get_option_num storage_site ''csp.constraints.r_eff'' None"
  using storage_site_feasible
  by (simp add: c_rs_rule_def storage_site_def ramp_def)

subsection \<open>A horizon of a single timestep\<close>

text \<open>
  C6, as the code has it. On a horizon of a single timestep, for a technology with storage,
  with zero resource flow and zero carrier flows, the stored energy at that timestep equals
  the initial storage \<open>s0\<close> itself (the entry of the \<^verbatim>\<open>s_init\<close> table in operation mode
  when the table is given, the option \<^verbatim>\<open>s_init\<close> otherwise): no loss factor is applied
  to the initial storage.
\<close>

theorem c_s_balance_pc_rule_single_step:
  assumes "m_t m = [t]"
    and "get_option_max m (y @ ''.constraints.s_cap_max'') None \<noteq> Fin 0"
    and "holds v (c_s_balance_pc_rule m y x t)"
    and "v (RS y x t) = 0"
    and "\<forall>c \<in> set (m_c m). v (ES_PROD c y x t) = 0 \<and> v (ES_CON c y x t) = 0"
  shows "(\<forall>s_init. mode m = ''operate'' \<and> d_s_init m = Some s_init
            \<longrightarrow> s_init (x, y) = Some (v (S y x t)))
         \<and> (mode m \<noteq> ''operate'' \<or> d_s_init m = None
            \<longrightarrow> v (S y x t) = get_option_num m (y @ ''.constraints.s_init'') (Some x))"
proof -
  have p: "(\<Sum>c\<leftarrow>m_c m. v (ES_PROD c y x t)) = 0" and c: "(\<Sum>c\<leftarrow>m_c m. v (ES_CON c y x t)) = 0"
    using assms(5) by (simp_all add: sum_list_all_zero)
  from assms(1-4) show ?thesis
    by (auto simp: c_s_balance_pc_rule_def Let_def eval_es_prod_term eval_es_con_term p c
        split: option.splits if_splits)
qed

theorem c_s_balance_pc_rule_single_step_witness:
  "m_t single_step = [0]
   \<and> get_option_max single_step (''csp'' @ ''.constraints.s_cap_max'') None \<noteq> Fin 0
   \<and> holds held (c_s_balance_pc_rule single_step ''csp'' ''r1'' 0)
   \<and> held (RS ''csp'' ''r1'' 0) = 0
   \<and> held (ES_PROD ''heat'' ''csp'' ''r1'' 0) = 0 \<and> held (ES_CON ''heat'' ''csp'' ''r1'' 0) = 0
   \<and> held (ES_PROD ''power'' ''csp'' ''r1'' 0) = 0 \<and> held (ES_CON ''power'' ''csp'' ''r1'' 0) = 0
   \<and> held (S ''csp'' ''r1'' 0) = get_option_num single_step (''csp'' @ ''.constraints.s_init'') (Some ''r1'')"
proof -
  have a: "m_t single_step = [0]"
    by (simp add: single_step_def storage_site_def)
  have b: "get_option_max single_step (''csp'' @ ''.constraints.s_cap_max'') None \<noteq> Fin 0"
    by (simp add: single_step_def storage_site_def)
  have c: "holds held (c_s_balance_pc_rule single_step ''csp'' ''r1'' 0)"
    by (simp add: c_s_balance_pc_rule_def es_prod_term_def es_con_term_def get_e_eff_def
        single_step_def storage_site_def held_def sum_expr_def Let_def)
  have d: "held (RS ''csp'' ''r1'' 0) = 0"
    by (simp add: held_def)
  have e: "\<forall>c \<in> set (m_c single_step).
             held (ES_PROD c ''csp'' ''r1'' 0) = 0 \<and> held (ES_CON c ''csp'' ''r1'' 0) = 0"
    by (simp add: single_step_def storage_site_def held_def)
  have f: "mode single_step \<noteq> ''operate''"
    by (simp add: single_step_def storage_site_def)
  from c_s_balance_pc_rule_single_step [OF a b c d e] f
  have "held (S ''csp'' ''r1'' 0)
          = get_option_num single_step (''csp'' @ ''.constraints.s_init'') (Some ''r1'')"
    by simp
  with a b c show ?thesis by (simp add: held_def)
qed

text \<open>
  C6 as stated fails: in \<open>single_step\<close> the initial storage is 8, half of the stored energy
  is lost per hour and the step lasts one hour; the feasible solution \<open>held\<close> has no flows
  and stores 8, not 8 * (1 - 1/2)^1 = 4.
\<close>

theorem c_s_balance_pc_rule_single_step_counterexample:
  "m_t single_step = [0]
   \<and> feasible single_step held
   \<and> held (RS ''csp'' ''r1'' 0) = 0
   \<and> held (ES_PROD ''heat'' ''csp'' ''r1'' 0) = 0 \<and> held (ES_CON ''heat'' ''csp'' ''r1'' 0) = 0
   \<and> held (ES_PROD ''power'' ''csp'' ''r1'' 0) = 0 \<and> held (ES_CON ''power'' ''csp'' ''r1'' 0) = 0
   \<and> held (S ''csp'' ''r1'' 0) \<noteq>
        get_option_num single_step ''csp.constraints.s_init'' (Some ''r1'')
          * (1 - get_option_num single_step ''csp.constraints.s_loss'' None)
              ^ m_time_res single_step 0"
  using single_step_feasible
  by (simp add: single_step_def storage_site_def held_def)

subsection \<open>Technologies without storage\<close>

lemma feasible_s_domain:
  "feasible m v \<Longrightarrow> y \<in> set (m_y_pc m) \<Longrightarrow> x \<in> set (m_x m) \<Longrightarrow> t \<in> set (m_t m)
   \<Longrightarrow> 0 \<le> v (S y x t)"
  by (simp add: feasible_def domains_def)

lemma feasible_c_s_max:
  "feasible m v \<Longrightarrow> y \<in> set (m_y_pc m) \<Longrightarrow> x \<in> set (m_x m) \<Longrightarrow> t \<in> set (m_t m)
   \<Longrightarrow> v (S y x t) \<le> v (S_CAP y x)"
  by (simp add: feasible_def operational_ok_def c_s_max_rule_def)

lemma feasible_c_s_cap:
  "feasible m v \<Longrightarrow> y \<in> set (m_y_pc m) \<Longrightarrow> x \<in> set (m_x m) \<Longrightarrow> holds v (c_s_cap_rule m y x)"
  by (simp add: feasible_def build_ok_def)

text \<open>The maximum that \<open>c_s_cap_rule\<close> applies, when it is finite.\<close>

lemma c_s_cap_rule_bound:
  assumes "holds v (c_s_cap_rule m y x)"
    and "if get_option_flag m (y @ ''.constraints.use_s_time'') (Some x)
         then pf_mul (Fin (get_option_num m (y @ ''.constraints.s_time_max'') (Some x)))
                (get_option_max m (y @ ''.constraints.e_cap_max'') (Some x)) = Fin (b * get_eff_ref m ''e'' y None)
         else get_option_max m (y @ ''.constraints.s_cap_max'') (Some x) = Fin b"
  shows "v (S_CAP y x) \<le> b"
  using assms
  by (auto simp: c_s_cap_rule_def Let_def split: if_splits)

text \<open>
  C4, as the code has it. For a technology whose \<^verbatim>\<open>s_cap_max\<close> is 0 at the level of the
  technology, the balance rule yields the instantaneous relation
  \<^verbatim>\<open>0 = rs - es_prod/e_eff - es_con*e_eff\<close>, in which no storage variable and so no
  carry-over from an earlier timestep occurs. Where the maximum that the capacity rule
  applies at the location (the location's \<^verbatim>\<open>s_cap_max\<close>, or
  \<^verbatim>\<open>s_time_max * e_cap_max / e_eff_ref\<close> under \<^verbatim>\<open>use_s_time\<close>) is 0 as well, the stored
  energy is zero in every feasible solution.
\<close>

theorem no_storage_instantaneous:
  assumes "feasible m v" and "y \<in> set (m_y_pc m)" and "x \<in> set (m_x m)" and "t \<in> set (m_t m)"
    and "get_option_max m (y @ ''.constraints.s_cap_max'') None = Fin 0"
  shows "(\<exists>c. c_s_balance_pc_rule m y x t = Inr (Constraint c))
         \<and> (\<forall>w. holds w (c_s_balance_pc_rule m y x t) \<longleftrightarrow>
                  0 = w (RS y x t)
                      - (if get_e_eff m y x t = 0 then 0
                         else (\<Sum>c\<leftarrow>m_c m. w (ES_PROD c y x t)) / get_e_eff m y x t)
                      - (\<Sum>c\<leftarrow>m_c m. w (ES_CON c y x t)) * get_e_eff m y x t)
         \<and> ((if get_option_flag m (y @ ''.constraints.use_s_time'') (Some x)
              then pf_mul (Fin (get_option_num m (y @ ''.constraints.s_time_max'') (Some x)))
                     (get_option_max m (y @ ''.constraints.e_cap_max'') (Some x)) = Fin 0
              else get_option_max m (y @ ''.constraints.s_cap_max'') (Some x) = Fin 0)
             \<longrightarrow> v (S y x t) = 0)"
proof (intro conjI impI allI)
  from assms(5) show "\<exists>c. c_s_balance_pc_rule m y x t = Inr (Constraint c)"
    by (simp add: c_s_balance_pc_rule_def Let_def)
next
  fix w :: valuation
  from assms(5)
  show "holds w (c_s_balance_pc_rule m y x t) \<longleftrightarrow>
          0 = w (RS y x t)
              - (if get_e_eff m y x t = 0 then 0
                 else (\<Sum>c\<leftarrow>m_c m. w (ES_PROD c y x t)) / get_e_eff m y x t)
              - (\<Sum>c\<leftarrow>m_c m. w (ES_CON c y x t)) * get_e_eff m y x t"
    by (simp add: c_s_balance_pc_rule_def Let_def eval_es_prod_term eval_es_con_term)
next
  assume "if get_option_flag m (y @ ''.constraints.use_s_time'') (Some x)
          then pf_mul (Fin (get_option_num m (y @ ''.constraints.s_time_max'') (Some x)))
                 (get_option_max m (y @ ''.constraints.e_cap_max'') (Some x)) = Fin 0
          else get_option_max m (y @ ''.constraints.s_cap_max'') (Some x) = Fin 0"
  with feasible_c_s_cap [OF assms(1-3)] have "v (S_CAP y x) \<le> 0"
    using c_s_cap_rule_bound [of v m y x 0] by simp
  with feasible_c_s_max [OF assms(1-4)] feasible_s_domain [OF assms(1-4)]
  show "v (S y x t) = 0" by simp
qed

theorem no_storage_instantaneous_witness:
  "feasible no_store_site idle
   \<and> ''csp'' \<in> set (m_y_pc no_store_site) \<and> ''r1'' \<in> set (m_x no_store_site)
   \<and> 1 \<in> set (m_t no_store_site)
   \<and> get_option_max no_store_site (''csp'' @ ''.constraints.s_cap_max'') None = Fin 0
   \<and> get_option_max no_store_site (''csp'' @ ''.constraints.s_cap_max'') (Some ''r1'') = Fin 0
   \<and> \<not> get_option_flag no_store_site (''csp'' @ ''.constraints.use_s_time'') (Some ''r1'')
   \<and> idle (S ''csp'' ''r1'' 1) = 0
   \<and> holds (idle (S ''csp'' ''r1'' 0 := 100)) (c_s_balance_pc_rule no_store_site ''csp'' ''r1'' 1)"
proof -
  have a: "''csp'' \<in> set (m_y_pc no_store_site)" "''r1'' \<in> set (m_x no_store_site)"
    "1 \<in> set (m_t no_store_site)"
    "get_option_max no_store_site (''csp'' @ ''.constraints.s_cap_max'') None = Fin 0"
    by (simp_all add: no_store_site_def storage_site_def)
  have b: "get_option_max no_store_site (''csp'' @ ''.constraints.s_cap_max'') (Some ''r1'') = Fin 0"
    "\<not> get_option_flag no_store_site (''csp'' @ ''.constraints.use_s_time'') (Some ''r1'')"
    by (simp_all add: no_store_site_def storage_site_def)
  note n = no_storage_instantaneous [OF no_store_site_feasible a]
  from n b have "idle (S ''csp'' ''r1'' 1) = 0" by simp
  moreover from n
  have "holds (idle (S ''csp'' ''r1'' 0 := 100)) (c_s_balance_pc_rule no_store_site ''csp'' ''r1'' 1)"
    by (simp add: idle_def no_store_site_def storage_site_def get_e_eff_def)
  ultimately show ?thesis using no_store_site_feasible a b by simp
qed

text \<open>
  C4 as stated fails: the balance rule reads \<^verbatim>\<open>s_cap_max\<close> at the level of the technology,
  the capacity rule at the location. In \<open>override_site\<close> the technology declares 0 and the
  location overrides it with 5; the feasible solution \<open>parked\<close> stores 3 units.
\<close>

theorem no_storage_override_counterexample:
  "feasible override_site parked
   \<and> ''csp'' \<in> set (m_y_pc override_site) \<and> ''r1'' \<in> set (m_x override_site)
   \<and> 0 \<in> set (m_t override_site)
   \<and> get_option_max override_site ''csp.constraints.s_cap_max'' None = Fin 0
   \<and> parked (S ''csp'' ''r1'' 0) \<noteq> 0"
  using override_site_feasible
  by (simp add: override_site_def storage_site_def parked_def)

subsection \<open>Capacity constraints\<close>

text \<open>
  C5, as the code has it. The four capacity rules select differently.
  Storage capacity: pinned to the maximum when \<^verbatim>\<open>s_cap_max_force\<close> is set or the mode is
  operate, bounded above by it when planning and not forced; the maximum is the
  location's \<^verbatim>\<open>s_cap_max\<close>, or \<^verbatim>\<open>s_time_max * e_cap_max / e_eff_ref\<close> under
  \<^verbatim>\<open>use_s_time\<close>; an infinite maximum still yields a relation, and the location's
  permission is not consulted.
  Resource conversion capacity: no relation for an infinite maximum, a bound when planning,
  an equality when operating; there is no force flag.
  Collector area: equal to the conversion capacity times \<^verbatim>\<open>area_per_cap / eff_ref\<close> when
  \<^verbatim>\<open>r_area_per_e_cap\<close> is set, equal to 1 when \<^verbatim>\<open>r_area_max\<close> is \<^verbatim>\<open>False\<close>, else a
  bound when planning and an equality when operating.
  Carrier conversion capacity: forced to 0 where the location does not permit the
  technology; else no relation for an infinite maximum; else pinned to
  \<^verbatim>\<open>e_cap_max * e_cap_max_scale\<close> when forced or operating, bounded by it when planning.
\<close>

theorem capacity_rules_selection:
  fixes m :: model and y :: tech and x :: loc and v :: valuation
  defines "s_force \<equiv> get_option_flag m (y @ ''.constraints.s_cap_max_force'') (Some x)"
    and "use_s_time \<equiv> get_option_flag m (y @ ''.constraints.use_s_time'') (Some x)"
    and "s_max \<equiv>
           (if get_option_flag m (y @ ''.constraints.use_s_time'') (Some x)
            then pf_div (pf_mul (Fin (get_option_num m (y @ ''.constraints.s_time_max'') (Some x)))
                                (get_option_max m (y @ ''.constraints.e_cap_max'') (Some x)))
                        (Fin (get_eff_ref m ''e'' y None))
            else get_option_max m (y @ ''.constraints.s_cap_max'') (Some x))"
    and "r_max \<equiv> get_option_max m (y @ ''.constraints.r_cap_max'') (Some x)"
    and "area_per_cap \<equiv> get_option_num m (y @ ''.constraints.r_area_per_e_cap'') None"
    and "area_max \<equiv> get_option_or_false m (y @ ''.constraints.r_area_max'') (Some x)"
    and "e_force \<equiv> get_option_flag m (y @ ''.constraints.e_cap_max_force'') (Some x)"
    and "e_max \<equiv> get_option_max m (y @ ''.constraints.e_cap_max'') (Some x)"
    and "e_scale \<equiv> get_option_num m (y @ ''.constraints.e_cap_max_scale'') (Some x)"
  shows
    "((use_s_time \<longrightarrow> get_eff_ref m ''e'' y None \<noteq> 0) \<longrightarrow>
        (s_force \<or> mode m = ''operate'' \<longrightarrow>
           (\<exists>c. c_s_cap_rule m y x = Inr (Constraint c))
           \<and> (holds v (c_s_cap_rule m y x) \<longleftrightarrow> pf_eq (Fin (v (S_CAP y x))) s_max))
      \<and> (\<not> s_force \<and> mode m = ''plan'' \<longrightarrow>
           (\<exists>c. c_s_cap_rule m y x = Inr (Constraint c))
           \<and> (holds v (c_s_cap_rule m y x) \<longleftrightarrow> pf_le (Fin (v (S_CAP y x))) s_max)))
     \<and> (isinf r_max \<longrightarrow> c_r_cap_rule m y x = Inr NoConstraint)
     \<and> (\<not> isinf r_max \<and> mode m = ''plan'' \<longrightarrow>
           (\<exists>c. c_r_cap_rule m y x = Inr (Constraint c))
           \<and> (holds v (c_r_cap_rule m y x) \<longleftrightarrow> pf_le (Fin (v (R_CAP y x))) r_max))
     \<and> (\<not> isinf r_max \<and> mode m = ''operate'' \<longrightarrow>
           (\<exists>c. c_r_cap_rule m y x = Inr (Constraint c))
           \<and> (holds v (c_r_cap_rule m y x) \<longleftrightarrow> pf_eq (Fin (v (R_CAP y x))) r_max))
     \<and> (area_per_cap \<noteq> 0 \<and> get_eff_ref m ''e'' y (Some x) \<noteq> 0 \<longrightarrow>
           (\<exists>c. c_r_area_rule m y x = Inr (Constraint c))
           \<and> (holds v (c_r_area_rule m y x) \<longleftrightarrow>
                v (R_AREA y x) = v (E_CAP y x) * (area_per_cap / get_eff_ref m ''e'' y (Some x))))
     \<and> (area_per_cap = 0 \<and> area_max = None \<longrightarrow>
           (\<exists>c. c_r_area_rule m y x = Inr (Constraint c))
           \<and> (holds v (c_r_area_rule m y x) \<longleftrightarrow> v (R_AREA y x) = 1))
     \<and> (\<forall>a. area_per_cap = 0 \<and> area_max = Some a \<and> mode m = ''plan'' \<longrightarrow>
           (\<exists>c. c_r_area_rule m y x = Inr (Constraint c))
           \<and> (holds v (c_r_area_rule m y x) \<longleftrightarrow> pf_le (Fin (v (R_AREA y x))) a))
     \<and> (\<forall>a. area_per_cap = 0 \<and> area_max = Some a \<and> mode m = ''operate'' \<longrightarrow>
           (\<exists>c. c_r_area_rule m y x = Inr (Constraint c))
           \<and> (holds v (c_r_area_rule m y x) \<longleftrightarrow> pf_eq (Fin (v (R_AREA y x))) a))
     \<and> (d_locations_ix m x y \<noteq> 1 \<longrightarrow>
           (\<exists>c. c_e_cap_rule m y x = Inr (Constraint c))
           \<and> (holds v (c_e_cap_rule m y x) \<longleftrightarrow> v (E_CAP y x) = 0))
     \<and> (d_locations_ix m x y = 1 \<and> isinf e_max \<longrightarrow> c_e_cap_rule m y x = Inr NoConstraint)
     \<and> (d_locations_ix m x y = 1 \<and> \<not> isinf e_max \<and> (e_force \<or> mode m = ''operate'') \<longrightarrow>
           (\<exists>c. c_e_cap_rule m y x = Inr (Constraint c))
           \<and> (holds v (c_e_cap_rule m y x) \<longleftrightarrow>
                pf_eq (Fin (v (E_CAP y x))) (pf_mul e_max (Fin e_scale))))
     \<and> (d_locations_ix m x y = 1 \<and> \<not> isinf e_max \<and> \<not> e_force \<and> mode m = ''plan'' \<longrightarrow>
           (\<exists>c. c_e_cap_rule m y x = Inr (Constraint c))
           \<and> (holds v (c_e_cap_rule m y x) \<longleftrightarrow>
                pf_le (Fin (v (E_CAP y x))) (pf_mul e_max (Fin e_scale))))"
proof (intro conjI)
  show "(use_s_time \<longrightarrow> get_eff_ref m ''e'' y None \<noteq> 0) \<longrightarrow>
        (s_force \<or> mode m = ''operate'' \<longrightarrow>
           (\<exists>c. c_s_cap_rule m y x = Inr (Constraint c))
           \<and> (holds v (c_s_cap_rule m y x) \<longleftrightarrow> pf_eq (Fin (v (S_CAP y x))) s_max))
      \<and> (\<not> s_force \<and> mode m = ''plan'' \<longrightarrow>
           (\<exists>c. c_s_cap_rule m y x = Inr (Constraint c))
           \<and> (holds v (c_s_cap_rule m y x) \<longleftrightarrow> pf_le (Fin (v (S_CAP y x))) s_max))"
    unfolding s_force_def use_s_time_def s_max_def
    by (auto simp: c_s_cap_rule_def Let_def)
qed (auto simp: c_r_cap_rule_def c_r_area_rule_def c_e_cap_rule_def Let_def
       r_max_def area_per_cap_def area_max_def e_force_def e_max_def e_scale_def)

theorem capacity_rules_selection_witness:
  "mode storage_site = ''plan'' \<and> mode storage_site_operate = ''operate''
   \<and> holds ramp (c_s_cap_rule storage_site ''csp'' ''r1'')
   \<and> \<not> holds (ramp (S_CAP ''csp'' ''r1'' := 7)) (c_s_cap_rule storage_site_operate ''csp'' ''r1'')
   \<and> c_r_cap_rule storage_site ''csp'' ''r1'' = Inr NoConstraint
   \<and> holds ramp (c_r_area_rule storage_site ''csp'' ''r1'')
   \<and> holds ramp (c_e_cap_rule storage_site ''csp'' ''r1'')
   \<and> holds (ramp (E_CAP ''csp'' ''r1'' := 200)) (c_e_cap_rule storage_site_operate ''csp'' ''r1'')"
proof -
  note p = capacity_rules_selection [where m = storage_site and y = "''csp''" and x = "''r1''"
      and v = ramp]
  note q = capacity_rules_selection [where m = storage_site_operate and y = "''csp''"
      and x = "''r1''" and v = "ramp (S_CAP ''csp'' ''r1'' := 7)"]
  note r = capacity_rules_selection [where m = storage_site_operate and y = "''csp''"
      and x = "''r1''" and v = "ramp (E_CAP ''csp'' ''r1'' := 200)"]
  have m: "mode storage_site = ''plan''" "mode storage_site_operate = ''operate''"
    by (simp_all add: storage_site_operate_def storage_site_def)
  from p have 1: "holds ramp (c_s_cap_rule storage_site ''csp'' ''r1'')"
    by (simp add: storage_site_def ramp_def)
  from q have 2: "\<not> holds (ramp (S_CAP ''csp'' ''r1'' := 7))
                      (c_s_cap_rule storage_site_operate ''csp'' ''r1'')"
    by (simp add: storage_site_operate_def storage_site_def)
  from p have 3: "c_r_cap_rule storage_site ''csp'' ''r1'' = Inr NoConstraint"
    by (simp add: storage_site_def isinf_def)
  from p have 4: "holds ramp (c_r_area_rule storage_site ''csp'' ''r1'')"
    by (simp add: storage_site_def ramp_def)
  from p have 5: "holds ramp (c_e_cap_rule storage_site ''csp'' ''r1'')"
    by (simp add: storage_site_def ramp_def isinf_def)
  from r have 6: "holds (ramp (E_CAP ''csp'' ''r1'' := 200))
                    (c_e_cap_rule storage_site_operate ''csp'' ''r1'')"
    by (simp add: storage_site_operate_def storage_site_def isinf_def)
  from m 1 2 3 4 5 6 show ?thesis by blast
qed

text \<open>
  C5 as stated fails: with an infinite storage maximum, planning and not forced, the
  storage-capacity rule of \<open>unbounded_store\<close> still emits a relation; and in operation mode
  the conversion capacity is pinned to the scaled maximum 200, so the configured maximum
  100 violates the relation.
\<close>

theorem capacity_rules_uniform_counterexample:
  "mode unbounded_store = ''plan''
   \<and> \<not> get_option_flag unbounded_store ''csp.constraints.s_cap_max_force'' (Some ''r1'')
   \<and> \<not> get_option_flag unbounded_store ''csp.constraints.use_s_time'' (Some ''r1'')
   \<and> get_option_max unbounded_store ''csp.constraints.s_cap_max'' (Some ''r1'') = PInf
   \<and> c_s_cap_rule unbounded_store ''csp'' ''r1''
       = Inr (Constraint (Le (V (S_CAP ''csp'' ''r1'')) (Num PInf)))
   \<and> mode storage_site_operate = ''operate''
   \<and> d_locations_ix storage_site_operate ''r1'' ''csp'' = 1
   \<and> get_option_max storage_site_operate ''csp.constraints.e_cap_max'' (Some ''r1'') = Fin 100
   \<and> \<not> holds (ramp (E_CAP ''csp'' ''r1'' := 100)) (c_e_cap_rule storage_site_operate ''csp'' ''r1'')"
  by (simp add: c_s_cap_rule_def c_e_cap_rule_def isinf_def unbounded_store_def
      storage_site_operate_def storage_site_def)

subsection \<open>Transmission\<close>

lemma feasible_c_transmission_capacity:
  "feasible m v \<Longrightarrow> y \<in> set (m_y_trans m) \<Longrightarrow> x \<in> set (m_x m)
   \<Longrightarrow> holds v (c_transmission_capacity_rule m y x)"
  by (simp add: feasible_def transmission_ok_def)

text \<open>
  C7. For a transmission technology \<open>y\<close> at location \<open>x\<close> whose remote counterpart is a
  transmission technology, the rule yields \<^verbatim>\<open>e_cap[y,x] == e_cap[y_remote,x_remote]\<close>, and
  in every feasible solution the two capacities are equal.
\<close>

theorem transmission_capacity_symmetric:
  assumes "feasible m v" and "y \<in> set (m_y_trans m)" and "x \<in> set (m_x m)"
    and "get_remotes m y x = (y_remote, x_remote)"
    and "y_remote \<in> set (d_transmission_y m)"
  shows "c_transmission_capacity_rule m y x
           = Inr (Constraint (Eq (V (E_CAP y x)) (V (E_CAP y_remote x_remote))))
         \<and> v (E_CAP y x) = v (E_CAP y_remote x_remote)"
  using feasible_c_transmission_capacity [OF assms(1-3)] assms(4,5)
  by (auto simp: c_transmission_capacity_rule_def split: if_splits)

theorem transmission_capacity_symmetric_witness:
  "feasible link_pair tied
   \<and> ''ac:b'' \<in> set (m_y_trans link_pair) \<and> ''a'' \<in> set (m_x link_pair)
   \<and> get_remotes link_pair ''ac:b'' ''a'' = (''ac:a'', ''b'')
   \<and> ''ac:a'' \<in> set (d_transmission_y link_pair)
   \<and> tied (E_CAP ''ac:b'' ''a'') = tied (E_CAP ''ac:a'' ''b'')"
proof -
  have a: "''ac:b'' \<in> set (m_y_trans link_pair)" "''a'' \<in> set (m_x link_pair)"
    "get_remotes link_pair ''ac:b'' ''a'' = (''ac:a'', ''b'')"
    "''ac:a'' \<in> set (d_transmission_y link_pair)"
    by (simp_all add: link_pair_def)
  from transmission_capacity_symmetric [OF link_pair_feasible a]
  have "tied (E_CAP ''ac:b'' ''a'') = tied (E_CAP ''ac:a'' ''b'')" by simp
  with link_pair_feasible a show ?thesis by simp
qed

subsection \<open>Construction cost\<close>

text \<open>
  C8. Where the annuity formula is defined (a plant life that is not 0 at zero interest, a
  denominator that is not 0 otherwise), \<open>depreciation_rate\<close> returns the rate of the
  specification, and the construction-cost relation is
  \<^verbatim>\<open>cost_con == rate * (sum of durations / 8760) * (sum of capacity * unit cost)\<close> over the
  capacity components that apply to the technology.
\<close>

theorem c_cost_con_rule_annuity:
  fixes m :: model and y :: tech and x :: loc and k :: cost_class and v :: valuation
  defines "interest \<equiv> get_option_default m (y @ ''.depreciation.interest.'' @ k)
                         (y @ ''.depreciation.interest.default'')"
    and "plant_life \<equiv> get_option_nat m (y @ ''.depreciation.plant_life'')"
  assumes "interest = 0 \<longrightarrow> plant_life \<noteq> 0"
    and "interest \<noteq> 0 \<longrightarrow> (1 + interest) ^ plant_life \<noteq> 1"
  shows "depreciation_rate m y k = Inr (spec_depreciation_rate interest plant_life)
         \<and> (\<exists>c. c_cost_con_rule m y x k = Inr (Constraint c))
         \<and> (holds v (c_cost_con_rule m y x k) \<longleftrightarrow>
              v (COST_CON y x k) =
                spec_depreciation_rate interest plant_life
                * (real (\<Sum>t\<leftarrow>m_t m. m_time_res m t) / 8760)
                * ((if y \<in> set (m_y_pc m) then tech_cost m ''s_cap'' y k * v (S_CAP y x) else 0)
                   + (if y \<in> set (m_y_def_r m) then tech_cost m ''r_cap'' y k * v (R_CAP y x) else 0)
                   + (if y \<in> set (m_y_def_r m) then tech_cost m ''r_area'' y k * v (R_AREA y x) else 0)
                   + tech_cost m ''e_cap'' y k * v (E_CAP y x)))"
proof -
  have d: "depreciation_rate m y k = Inr (spec_depreciation_rate interest plant_life)"
    using assms(3,4) unfolding interest_def plant_life_def
    by (auto simp: depreciation_rate_def spec_depreciation_rate_def Let_def)
  then show ?thesis
    by (simp add: c_cost_con_rule_def Let_def)
qed

theorem c_cost_con_rule_annuity_witness:
  "depreciation_rate storage_site ''csp'' ''monetary'' = Inr (1 / 25)
   \<and> holds ramp (c_cost_con_rule storage_site ''csp'' ''r1'' ''monetary'')
   \<and> ramp (COST_CON ''csp'' ''r1'' ''monetary'') = 1 / 25 * (3 / 8760) * 1000
   \<and> depreciation_rate loan_site ''csp'' ''monetary'' = Inr 2"
proof -
  note p = c_cost_con_rule_annuity [where m = storage_site and y = "''csp''" and x = "''r1''"
      and k = "''monetary''" and v = ramp]
  note q = c_cost_con_rule_annuity [where m = loan_site and y = "''csp''" and x = "''r1''"
      and k = "''monetary''" and v = ramp]
  from p have 1: "depreciation_rate storage_site ''csp'' ''monetary'' = Inr (1 / 25)"
    by (simp add: storage_site_def spec_depreciation_rate_def)
  from p have 2: "holds ramp (c_cost_con_rule storage_site ''csp'' ''r1'' ''monetary'')"
    by (simp add: storage_site_def spec_depreciation_rate_def ramp_def tech_cost_def)
  from q have 3: "depreciation_rate loan_site ''csp'' ''monetary'' = Inr 2"
    by (simp add: loan_site_def storage_site_def spec_depreciation_rate_def)
  from 1 2 3 show ?thesis by (simp add: ramp_def)
qed

subsection \<open>System balance\<close>




subsection \<open>Carriers at the grid interface\<close>

text \<open>
  C10. For a carrier \<open>c\<close> that is not the declared carrier of technology \<open>y\<close>, the
  production variable is constrained to equal 0; the consumption variable is constrained to
  equal 0 unless \<^verbatim>\<open>e_can_be_negative\<close> is true and \<open>c\<close> is the declared carrier. So in every
  feasible solution a technology neither produces nor consumes a carrier other than its
  own.
\<close>

theorem own_carrier_only:
  "(c \<noteq> get_option_str m (y @ ''.carrier'') \<longrightarrow>
      (\<exists>cn. c_es_prod_max_rule m c y x t = Inr (Constraint cn))
      \<and> (holds v (c_es_prod_max_rule m c y x t) \<longleftrightarrow> v (ES_PROD c y x t) = 0))
   \<and> (\<not> (get_option_flag m (y @ ''.constraints.e_can_be_negative'') None
          \<and> c = get_option_str m (y @ ''.carrier'')) \<longrightarrow>
      (\<exists>cn. c_es_con_max_rule m c y x t = Inr (Constraint cn))
      \<and> (holds v (c_es_con_max_rule m c y x t) \<longleftrightarrow> v (ES_CON c y x t) = 0))
   \<and> (feasible m v \<and> c \<in> set (m_c m) \<and> y \<in> set (m_y m) \<and> x \<in> set (m_x m) \<and> t \<in> set (m_t m)
        \<and> c \<noteq> get_option_str m (y @ ''.carrier'')
      \<longrightarrow> v (ES_PROD c y x t) = 0 \<and> v (ES_CON c y x t) = 0)"
proof (intro conjI impI)
  assume f: "feasible m v \<and> c \<in> set (m_c m) \<and> y \<in> set (m_y m) \<and> x \<in> set (m_x m)
             \<and> t \<in> set (m_t m) \<and> c \<noteq> get_option_str m (y @ ''.carrier'')"
  then have "holds v (c_es_prod_max_rule m c y x t)" "holds v (c_es_con_max_rule m c y x t)"
    by (simp_all add: feasible_def operational_ok_def)
  with f show "v (ES_PROD c y x t) = 0" "v (ES_CON c y x t) = 0"
    by (simp_all add: c_es_prod_max_rule_def c_es_con_max_rule_def)
qed (auto simp: c_es_prod_max_rule_def c_es_con_max_rule_def)

theorem own_carrier_only_witness:
  "''power'' \<noteq> get_option_str storage_site (''csp'' @ ''.carrier'')
   \<and> feasible storage_site ramp
   \<and> ''power'' \<in> set (m_c storage_site) \<and> ''csp'' \<in> set (m_y storage_site)
   \<and> ''r1'' \<in> set (m_x storage_site) \<and> 0 \<in> set (m_t storage_site)
   \<and> holds ramp (c_es_prod_max_rule storage_site ''power'' ''csp'' ''r1'' 0)
   \<and> holds ramp (c_es_con_max_rule storage_site ''power'' ''csp'' ''r1'' 0)
   \<and> ramp (ES_PROD ''power'' ''csp'' ''r1'' 0) = 0 \<and> ramp (ES_CON ''power'' ''csp'' ''r1'' 0) = 0"
proof -
  have a: "''power'' \<noteq> get_option_str storage_site (''csp'' @ ''.carrier'')"
    "''power'' \<in> set (m_c storage_site)" "''csp'' \<in> set (m_y storage_site)"
    "''r1'' \<in> set (m_x storage_site)" "0 \<in> set (m_t storage_site)"
    by (simp_all add: storage_site_def)
  note o = own_carrier_only [where m = storage_site and c = "''power''" and y = "''csp''"
      and x = "''r1''" and t = 0 and v = ramp]
  from o a storage_site_feasible
  have z: "ramp (ES_PROD ''power'' ''csp'' ''r1'' 0) = 0" "ramp (ES_CON ''power'' ''csp'' ''r1'' 0) = 0"
    by blast+
  with o a have "holds ramp (c_es_prod_max_rule storage_site ''power'' ''csp'' ''r1'' 0)"
    "holds ramp (c_es_con_max_rule storage_site ''power'' ''csp'' ''r1'' 0)"
    by blast+
  with a z storage_site_feasible show ?thesis by blast
qed

end
